theory Spec2Isabelle
  imports Complex_Main
begin

section \<open>Strings\<close>

text \<open>
  A Python \<open>str\<close> is a sequence of Unicode code points: \<open>content[:100]\<close> counts code
  points and the fallback placeholder of the LLM service is not ASCII. A string is
  therefore modelled as the list of its code points; \<open>ascii\<close> embeds an ASCII literal.
\<close>

type_synonym pystr = "nat list"

definition ascii :: "string \<Rightarrow> pystr" where
  "ascii s = map of_char s"

text \<open>\<open>s.startswith(p)\<close>.\<close>

definition startswith :: "pystr \<Rightarrow> pystr \<Rightarrow> bool" where
  "startswith s p = (take (length p) s = p)"

text \<open>\<open>datetime.utcnow()\<close> is a reading of the clock, passed in by the caller.\<close>

type_synonym time = nat

section \<open>services/csv\_service.py: the tabular summarizer\<close>

subsection \<open>The data frame\<close>

text \<open>
  \<open>parse_csv\<close> works on a pandas \<open>DataFrame\<close>. The frame is modelled as its row count
  (the length of the index) and its columns in order, each with its name, its dtype and
  its cells. The dtype belongs to the column, not to its cells: \<open>df.head(n)\<close> keeps
  it. \<open>Null\<close> is a missing cell (NaN); a number is the real number it denotes, and the
  aggregates of a column are taken exactly before \<open>float\<close> rounds them.
\<close>

datatype dtype = Int64 | Float64 | BoolT | Object | Datetime64

datatype cell = Null | Num real | Str pystr | Flag bool

record column =
  cname :: pystr
  ctype :: dtype
  cells :: "cell list"

record frame =
  nrows :: nat
  fcols :: "column list"

text \<open>Every column of a frame has one cell per row.\<close>

definition wf_frame :: "frame \<Rightarrow> bool" where
  "wf_frame df = list_all (\<lambda>c. length (cells c) = nrows df) (fcols df)"

text \<open>\<open>df.head(n)\<close>, \<open>df[col]\<close> and \<open>df.select_dtypes(include=...)\<close>.\<close>

definition head :: "nat \<Rightarrow> frame \<Rightarrow> frame" where
  "head n df =
     \<lparr>nrows = min n (nrows df),
      fcols = map (\<lambda>c. c\<lparr>cells := take n (cells c)\<rparr>) (fcols df)\<rparr>"

definition getitem :: "frame \<Rightarrow> pystr \<Rightarrow> cell list" where
  "getitem df col =
     (case find (\<lambda>c. cname c = col) (fcols df) of Some c \<Rightarrow> cells c | None \<Rightarrow> [])"

definition select_dtypes :: "dtype list \<Rightarrow> frame \<Rightarrow> pystr list" where
  "select_dtypes include df = map cname (filter (\<lambda>c. ctype c \<in> set include) (fcols df))"

definition dtype_name :: "dtype \<Rightarrow> pystr" where
  "dtype_name t =
     (case t of Int64 \<Rightarrow> ascii ''int64'' | Float64 \<Rightarrow> ascii ''float64''
      | BoolT \<Rightarrow> ascii ''bool'' | Object \<Rightarrow> ascii ''object''
      | Datetime64 \<Rightarrow> ascii ''datetime64[ns]'')"

subsection \<open>Column statistics\<close>

text \<open>
  \<open>df[col].dropna()\<close> of a numeric column: its numbers, nulls dropped; and
  \<open>df[col].isnull().sum()\<close>.
\<close>

definition dropna :: "cell list \<Rightarrow> real list" where
  "dropna cs = concat (map (\<lambda>c. case c of Num x \<Rightarrow> [x] | _ \<Rightarrow> []) cs)"

definition isnull_sum :: "cell list \<Rightarrow> nat" where
  "isnull_sum cs = length (filter (\<lambda>c. c = Null) cs)"

text \<open>
  \<open>round(float(x), 2)\<close>. \<open>float\<close> takes the aggregate to the nearest binary64 number
  (53 significant bits, a tie going to the even neighbour; magnitudes are those of the
  normal range). \<open>round\<close> takes the exact value of that float to the nearest hundredth,
  a tie going to the even neighbour, and returns the float nearest to the hundredth.
\<close>

definition round_half_even :: "real \<Rightarrow> int" where
  "round_half_even y =
     (let f = \<lfloor>y\<rfloor>; d = y - of_int f
      in if d < 1 / 2 then f else if 1 / 2 < d then f + 1
         else if even f then f else f + 1)"

definition to_double :: "real \<Rightarrow> real" where
  "to_double x =
     (if x = 0 then 0
      else (let e = \<lfloor>log 2 \<bar>x\<bar>\<rfloor>; u = 2 powr (of_int e - 52)
            in of_int (round_half_even (x / u)) * u))"

definition round2 :: "real \<Rightarrow> real" where
  "round2 x = to_double (of_int (round_half_even (to_double x * 100)) / 100)"

text \<open>
  The aggregates of a series, called on a non-empty series only (\<open>len(col_data) > 0\<close>);
  \<open>std\<close> is the sample standard deviation (one degree of freedom removed), called on at
  least two values.
\<close>

definition mean :: "real list \<Rightarrow> real" where
  "mean xs = sum_list xs / real (length xs)"

definition median :: "real list \<Rightarrow> real" where
  "median xs =
     (let s = sort xs; n = length s
      in if n mod 2 = 1 then s ! (n div 2)
         else (s ! (n div 2 - 1) + s ! (n div 2)) / 2)"

definition series_min :: "real list \<Rightarrow> real" where
  "series_min xs = foldl min (hd xs) (tl xs)"

definition series_max :: "real list \<Rightarrow> real" where
  "series_max xs = foldl max (hd xs) (tl xs)"

definition std :: "real list \<Rightarrow> real" where
  "std xs =
     sqrt (sum_list (map (\<lambda>x. (x - mean xs)\<^sup>2) xs) / real (length xs - 1))"

record col_stats =
  st_mean :: real
  st_median :: real
  st_min :: real
  st_max :: real
  st_std :: real
  st_count :: nat
  st_missing :: nat

text \<open>The body of the loop over \<open>numeric_columns\<close>: no entry for a column without numbers.\<close>

definition column_stats :: "cell list \<Rightarrow> col_stats option" where
  "column_stats cs =
     (let col_data = dropna cs
      in if length col_data > 0
         then Some \<lparr>st_mean = round2 (mean col_data),
                    st_median = round2 (median col_data),
                    st_min = round2 (series_min col_data),
                    st_max = round2 (series_max col_data),
                    st_std = (if length col_data > 1 then round2 (std col_data) else 0),
                    st_count = length col_data,
                    st_missing = isnull_sum cs\<rparr>
         else None)"

definition numeric_stats_of :: "frame \<Rightarrow> pystr list \<Rightarrow> (pystr \<times> col_stats) list" where
  "numeric_stats_of df numeric_columns =
     concat (map (\<lambda>col. case column_stats (getitem df col) of
                            Some s \<Rightarrow> [(col, s)] | None \<Rightarrow> [])
                 numeric_columns)"

text \<open>\<open>df.isnull().sum().to_dict()\<close>, in column order.\<close>

definition missing_values_of :: "frame \<Rightarrow> (pystr \<times> nat) list" where
  "missing_values_of df = map (\<lambda>c. (cname c, isnull_sum (cells c))) (fcols df)"

text \<open>
  The loop that finds the column with most missing values: a later column replaces the
  current one only with a strictly greater count.
\<close>

fun most_missing :: "(pystr \<times> nat) list \<Rightarrow> pystr option \<times> nat \<Rightarrow> pystr option \<times> nat" where
  "most_missing [] acc = acc"
| "most_missing ((col, count) # rest) (most_missing_col, most_missing_count) =
     most_missing rest
       (if count > most_missing_count then (Some col, count)
        else (most_missing_col, most_missing_count))"

subsection \<open>Sample rows\<close>

text \<open>
  The values of the row dictionaries: Python's \<open>None\<close>, a float NaN, and the other
  cell values.
\<close>

datatype pyval = PyNone | PyNaN | PyNum real | PyStr pystr | PyBool bool

definition to_py :: "cell \<Rightarrow> pyval" where
  "to_py c = (case c of Null \<Rightarrow> PyNaN | Num x \<Rightarrow> PyNum x | Str s \<Rightarrow> PyStr s
              | Flag b \<Rightarrow> PyBool b)"

text \<open>
  \<open>df.fillna("")\<close> puts the empty string into every missing cell; a column that had
  one becomes an object column.
\<close>

definition fillna_empty :: "frame \<Rightarrow> frame" where
  "fillna_empty df =
     df\<lparr>fcols := map (\<lambda>c. if Null \<in> set (cells c)
                            then c\<lparr>ctype := Object,
                                   cells := map (\<lambda>x. if x = Null then Str [] else x) (cells c)\<rparr>
                            else c)
                     (fcols df)\<rparr>"

text \<open>\<open>df.to_dict(orient="records")\<close>: one dictionary per row, keyed by column name.\<close>

definition to_dict_records :: "frame \<Rightarrow> (pystr \<times> pyval) list list" where
  "to_dict_records df =
     map (\<lambda>i. map (\<lambda>c. (cname c, to_py (cells c ! i))) (fcols df)) [0..<nrows df]"

text \<open>The cleaning loop over the sample rows.\<close>

definition pd_isna :: "pyval \<Rightarrow> bool" where
  "pd_isna v = (v = PyNone \<or> v = PyNaN)"

definition clean_value :: "pyval \<Rightarrow> pyval" where
  "clean_value v = (if pd_isna v then PyNone else if v = PyNaN then PyNone else v)"

definition clean_rows :: "(pystr \<times> pyval) list list \<Rightarrow> (pystr \<times> pyval) list list" where
  "clean_rows rows = map (map (\<lambda>(key, v). (key, clean_value v))) rows"

subsection \<open>parse\_csv\<close>

definition MAX_ROWS_DISPLAY :: nat where
  "MAX_ROWS_DISPLAY = 100"

definition MAX_ROWS_CONTEXT :: nat where
  "MAX_ROWS_CONTEXT = 1000"

record csv_data =
  cd_filename :: pystr
  cd_columns :: "pystr list"
  cd_row_count :: nat
  cd_displayed_rows :: nat
  cd_truncated :: bool
  cd_numeric_columns :: "pystr list"
  cd_text_columns :: "pystr list"
  cd_datetime_columns :: "pystr list"
  cd_dtypes :: "(pystr \<times> pystr) list"
  cd_sample_rows :: "(pystr \<times> pyval) list list"
  cd_numeric_stats :: "(pystr \<times> col_stats) list"
  cd_missing_values :: "(pystr \<times> nat) list"

record summary =
  sm_row_count :: nat
  sm_column_count :: nat
  sm_columns :: "pystr list"
  sm_numeric_columns :: "pystr list"
  sm_text_columns :: "pystr list"
  sm_missing_values :: "(pystr \<times> nat) list"
  sm_numeric_stats :: "(pystr \<times> col_stats) list"
  sm_most_missing_column :: "pystr option"
  sm_most_missing_count :: nat
  sm_text_summary :: pystr
  sm_sample_rows :: "(pystr \<times> pyval) list list"

text \<open>
  \<open>_generate_text_summary\<close> renders numbers into text (thousands separators, one
  decimal of a percentage). The rendering is a parameter of the model, applied to the
  arguments the source passes.
\<close>

type_synonym text_summary_fn =
  "frame \<Rightarrow> pystr \<Rightarrow> pystr list \<Rightarrow> pystr list \<Rightarrow> (pystr \<times> nat) list \<Rightarrow> pystr"

text \<open>\<open>parse_csv\<close> from the row limit on, for the frame \<open>df\<close> just read.\<close>

definition summarize :: "text_summary_fn \<Rightarrow> frame \<Rightarrow> pystr \<Rightarrow> csv_data \<times> summary" where
  "summarize generate_text_summary df0 filename =
     (let df_full = df0;
          truncated = (nrows df0 > MAX_ROWS_CONTEXT);
          df = (if nrows df0 > MAX_ROWS_CONTEXT then head MAX_ROWS_CONTEXT df0 else df0);
          numeric_columns = select_dtypes [Int64, Float64] df;
          text_columns = select_dtypes [Object] df;
          datetime_columns = select_dtypes [Datetime64] df;
          numeric_stats = numeric_stats_of df numeric_columns;
          missing_values = missing_values_of df;
          (most_missing_col, most_missing_count) = most_missing missing_values (None, 0);
          sample_rows = clean_rows (to_dict_records (fillna_empty (head MAX_ROWS_DISPLAY df)));
          text_summary =
            generate_text_summary df_full filename numeric_columns text_columns missing_values
      in (\<lparr>cd_filename = filename,
           cd_columns = map cname (fcols df),
           cd_row_count = nrows df_full,
           cd_displayed_rows = nrows df,
           cd_truncated = truncated,
           cd_numeric_columns = numeric_columns,
           cd_text_columns = text_columns,
           cd_datetime_columns = datetime_columns,
           cd_dtypes = map (\<lambda>c. (cname c, dtype_name (ctype c))) (fcols df),
           cd_sample_rows = sample_rows,
           cd_numeric_stats = numeric_stats,
           cd_missing_values = missing_values\<rparr>,
          \<lparr>sm_row_count = nrows df_full,
           sm_column_count = length (fcols df),
           sm_columns = map cname (fcols df),
           sm_numeric_columns = numeric_columns,
           sm_text_columns = text_columns,
           sm_missing_values = missing_values,
           sm_numeric_stats = numeric_stats,
           sm_most_missing_column = most_missing_col,
           sm_most_missing_count = most_missing_count,
           sm_text_summary = text_summary,
           sm_sample_rows = take 5 sample_rows\<rparr>))"

text \<open>
  Reading the text is pandas' work. \<open>parse_csv\<close> takes the two readers it calls as
  parameters: the default one, and the lenient one (the Python engine skipping bad
  lines) it retries with after a \<open>ParserError\<close>. Any failure but that one, and any
  failure of the retry, becomes a \<open>ValueError\<close> whose message is the source's
  Vietnamese prefix for that case, given by its code points, and the text of the failure.
\<close>

datatype read_error = ParserError pystr | OtherReadError pystr

type_synonym reader = "pystr \<Rightarrow> read_error + frame"

datatype parse_error = ValueError pystr

definition parse_failed_prefix :: pystr where
  "parse_failed_prefix = [76, 7895, 105, 32, 112, 97, 114, 115, 101, 32, 67, 83, 86, 58, 32]"

definition retry_failed_prefix :: pystr where
  "retry_failed_prefix =
     [70, 105, 108, 101, 32, 110, 225, 116, 32, 113, 117, 225, 32, 99, 7913, 117, 32, 107,
      104, 244, 110, 103, 32, 110, 7893, 105, 58, 32]"

definition parse_csv ::
  "text_summary_fn \<Rightarrow> reader \<Rightarrow> reader \<Rightarrow> pystr \<Rightarrow> pystr \<Rightarrow> parse_error + csv_data \<times> summary" where
  "parse_csv generate_text_summary read_csv read_csv_lenient content filename =
     (case read_csv content of
        Inr df \<Rightarrow> Inr (summarize generate_text_summary df filename)
      | Inl (ParserError _) \<Rightarrow>
          (case read_csv_lenient content of
             Inr df \<Rightarrow> Inr (summarize generate_text_summary df filename)
           | Inl (ParserError e) \<Rightarrow> Inl (ValueError (retry_failed_prefix @ e))
           | Inl (OtherReadError e) \<Rightarrow> Inl (ValueError (retry_failed_prefix @ e)))
      | Inl (OtherReadError e) \<Rightarrow> Inl (ValueError (parse_failed_prefix @ e)))"

subsection \<open>Reading plain comma-separated text\<close>

text \<open>
  What \<open>pd.read_csv\<close> makes of plain text, for the texts where its conventions are
  not in doubt: lines separated by a line feed, blank lines skipped, fields separated by
  commas; the first line names the columns, with distinct names made of ASCII letters;
  every other line has one field per column, and a field is empty, a string of at most
  18 decimal digits, or a string of ASCII letters that pandas does not read as a missing
  value, a boolean or an infinity. An empty field is a missing cell. A column of digit
  strings only is \<open>int64\<close>; one of digit strings and empty fields is \<open>float64\<close>; any
  other column holds its fields as text (\<open>object\<close>), as does every column of a frame
  without rows. On any other text the result is \<open>None\<close>: the text is outside this
  reading.
\<close>

fun split_on :: "'a \<Rightarrow> 'a list \<Rightarrow> 'a list list" where
  "split_on d [] = [[]]"
| "split_on d (x # xs) =
     (if x = d then [] # split_on d xs
      else (case split_on d xs of [] \<Rightarrow> [[x]] | y # ys \<Rightarrow> (x # y) # ys))"

definition is_digit :: "nat \<Rightarrow> bool" where
  "is_digit c = (48 \<le> c \<and> c \<le> 57)"

definition is_letter :: "nat \<Rightarrow> bool" where
  "is_letter c = ((65 \<le> c \<and> c \<le> 90) \<or> (97 \<le> c \<and> c \<le> 122))"

definition lower_ascii :: "nat \<Rightarrow> nat" where
  "lower_ascii c = (if 65 \<le> c \<and> c \<le> 90 then c + 32 else c)"

definition reserved_words :: "pystr list" where
  "reserved_words =
     map ascii [''na'', ''nan'', ''null'', ''none'', ''true'', ''false'', ''inf'', ''infinity'']"

definition is_number :: "pystr \<Rightarrow> bool" where
  "is_number f = (f \<noteq> [] \<and> length f \<le> 18 \<and> list_all is_digit f)"

definition is_word :: "pystr \<Rightarrow> bool" where
  "is_word f =
     (f \<noteq> [] \<and> list_all is_letter f \<and> map lower_ascii f \<notin> set reserved_words)"

definition plain_field :: "pystr \<Rightarrow> bool" where
  "plain_field f = (f = [] \<or> is_number f \<or> is_word f)"

definition digits_value :: "pystr \<Rightarrow> nat" where
  "digits_value f = foldl (\<lambda>a c. 10 * a + (c - 48)) 0 f"

definition read_column :: "pystr \<Rightarrow> pystr list \<Rightarrow> column" where
  "read_column name vals =
     (if vals \<noteq> [] \<and> list_all is_number vals
      then \<lparr>cname = name, ctype = Int64,
            cells = map (\<lambda>f. Num (real (digits_value f))) vals\<rparr>
      else if vals \<noteq> [] \<and> list_all (\<lambda>f. f = [] \<or> is_number f) vals
      then \<lparr>cname = name, ctype = Float64,
            cells = map (\<lambda>f. if f = [] then Null else Num (real (digits_value f))) vals\<rparr>
      else \<lparr>cname = name, ctype = Object,
            cells = map (\<lambda>f. if f = [] then Null else Str f) vals\<rparr>)"

definition read_plain :: "pystr \<Rightarrow> frame option" where
  "read_plain content =
     (case filter (\<lambda>l. l \<noteq> []) (split_on 10 content) of
        [] \<Rightarrow> None
      | header # lines \<Rightarrow>
          (let names = split_on 44 header;
               records = map (split_on 44) lines
           in if list_all is_word names \<and> distinct names
                 \<and> list_all (\<lambda>r. length r = length names \<and> list_all plain_field r) records
              then Some \<lparr>nrows = length records,
                         fcols = map (\<lambda>j. read_column (names ! j) (map (\<lambda>r. r ! j) records))
                                     [0..<length names]\<rparr>
              else None))"

section \<open>database/models.py: the persisted rows\<close>

text \<open>
  \<open>Conversation\<close>: the primary key \<open>id\<close> is the key of the table below. The column
  defaults (\<open>has_active_image\<close> and \<open>has_active_csv\<close> False, the title and the file
  names NULL) are what \<open>create_conversation\<close> inserts.
\<close>

record conversation =
  created_at :: time
  updated_at :: time
  title :: "pystr option"
  has_active_image :: bool
  image_filename :: "pystr option"
  has_active_csv :: bool
  csv_filename :: "pystr option"
  csv_summary :: "pystr option"

text \<open>
  \<open>Message\<close>. The JSON column \<open>csv_info\<close> holds what the upload routes store in it;
  \<open>chart_data\<close> is an opaque payload.
\<close>

type_synonym json = pystr

record upload_info =
  ui_filename :: pystr
  ui_rows :: nat
  ui_columns :: nat
  ui_url :: "pystr option"

record message =
  msg_id :: pystr
  conversation_id :: pystr
  role :: pystr
  content :: pystr
  timestamp :: time
  image_url :: "pystr option"
  csv_info :: "upload_info option"
  chart_data :: "json option"

text \<open>
  \<open>ImageContext\<close> and \<open>CSVContext\<close>. Their \<open>conversation_id\<close> is unique, so each
  table is a map from it. \<open>csv_data\<close> is the JSON column \<open>set_active_csv\<close> fills.
\<close>

record image_context =
  image_base64 :: pystr
  img_filename :: pystr
  img_uploaded_at :: time

record full_csv_data =
  fd_sample_rows :: "(pystr \<times> pyval) list list"
  fd_numeric_stats :: "(pystr \<times> col_stats) list"
  fd_missing_values :: "(pystr \<times> nat) list"
  fd_dtypes :: "(pystr \<times> pystr) list"

record csv_context =
  cc_filename :: pystr
  cc_row_count :: nat
  cc_column_count :: nat
  cc_columns :: "pystr list"
  cc_numeric_columns :: "pystr list"
  cc_text_columns :: "pystr list"
  cc_csv_data :: full_csv_data
  cc_summary_text :: pystr
  cc_uploaded_at :: time

text \<open>The database: the four tables. Messages are kept in the order of their insertion.\<close>

record db =
  conversations :: "pystr \<rightharpoonup> conversation"
  messages :: "message list"
  image_contexts :: "pystr \<rightharpoonup> image_context"
  csv_contexts :: "pystr \<rightharpoonup> csv_context"

definition empty_db :: db where
  "empty_db = \<lparr>conversations = Map.empty, messages = [],
               image_contexts = Map.empty, csv_contexts = Map.empty\<rparr>"

section \<open>database/repository.py\<close>

text \<open>
  Every function opens a session of its own (\<open>db = None\<close> at every call site outside
  this file), works on the session's pending state and commits it. The functions take
  the committed database and return the committed database after the call. The value
  of \<open>uuid.uuid4()\<close> and the reading of the clock are arguments; the readings of the
  clock within one call are taken as one.
\<close>

datatype repo_error = NotFound pystr | IntegrityError | DatabaseError

text \<open>\<open>db.commit()\<close> publishes the pending state; \<open>db.rollback()\<close> drops it.\<close>

definition commit :: "db \<Rightarrow> db \<Rightarrow> db" where
  "commit committed pending = pending"

definition rollback :: "db \<Rightarrow> db \<Rightarrow> db" where
  "rollback committed pending = committed"

text \<open>Python's truth value of an optional string: \<open>None\<close> and \<open>""\<close> are false.\<close>

definition truthy :: "pystr option \<Rightarrow> bool" where
  "truthy s = (case s of None \<Rightarrow> False | Some t \<Rightarrow> t \<noteq> [])"

subsection \<open>Conversations\<close>

text \<open>
  \<open>create_conversation\<close>: the insert fails on the primary key when the drawn
  identifier is taken. The callers use the \<open>id\<close> of the returned dictionary.
\<close>

definition create_conversation :: "db \<Rightarrow> pystr \<Rightarrow> time \<Rightarrow> repo_error + db \<times> pystr" where
  "create_conversation d conv_id now =
     (if conversations d conv_id \<noteq> None then Inl IntegrityError
      else Inr (commit d (d\<lparr>conversations := (conversations d)(conv_id \<mapsto>
                  \<lparr>created_at = now, updated_at = now, title = None,
                   has_active_image = False, image_filename = None,
                   has_active_csv = False, csv_filename = None, csv_summary = None\<rparr>)\<rparr>),
                conv_id))"

text \<open>\<open>get_conversation\<close>: the callers test the result for \<open>None\<close> only.\<close>

definition get_conversation :: "db \<Rightarrow> pystr \<Rightarrow> conversation option" where
  "get_conversation d conv_id = conversations d conv_id"

text \<open>\<open>delete_conversation\<close>: the relationships cascade the delete to the owned rows.\<close>

definition delete_conversation :: "db \<Rightarrow> pystr \<Rightarrow> db \<times> bool" where
  "delete_conversation d conv_id =
     (case conversations d conv_id of
        Some conversation \<Rightarrow>
          (commit d (d\<lparr>conversations := (conversations d)(conv_id := None),
                       messages := filter (\<lambda>m. conversation_id m \<noteq> conv_id) (messages d),
                       image_contexts := (image_contexts d)(conv_id := None),
                       csv_contexts := (csv_contexts d)(conv_id := None)\<rparr>), True)
      | None \<Rightarrow> (d, False))"

subsection \<open>Messages\<close>

definition add_message ::
  "db \<Rightarrow> pystr \<Rightarrow> pystr \<Rightarrow> pystr \<Rightarrow> pystr option \<Rightarrow> upload_info option \<Rightarrow> json option
    \<Rightarrow> pystr \<Rightarrow> time \<Rightarrow> repo_error + db \<times> message" where
  "add_message d conv_id role' content' image_url' csv_data' chart_data' new_id now =
     (case conversations d conv_id of
        None \<Rightarrow> Inl (NotFound conv_id)
      | Some conversation \<Rightarrow>
          (let message = \<lparr>msg_id = new_id, conversation_id = conv_id, role = role',
                          content = content', timestamp = now, image_url = image_url',
                          csv_info = csv_data', chart_data = chart_data'\<rparr>;
               conversation1 = conversation\<lparr>updated_at := now\<rparr>;
               conversation2 =
                 (if \<not> truthy (title conversation1) \<and> role' = ascii ''user''
                     \<and> \<not> startswith content' (ascii ''['')
                  then conversation1\<lparr>title := Some (take 100 content')\<rparr>
                  else conversation1)
           in Inr (commit d (d\<lparr>messages := messages d @ [message],
                               conversations := (conversations d)(conv_id \<mapsto> conversation2)\<rparr>),
                   message)))"

text \<open>
  \<open>order_by(desc(Message.timestamp))\<close>: latest first; the rows of one timestamp come
  in the order of their insertion.
\<close>

definition order_by_desc_timestamp :: "message list \<Rightarrow> message list" where
  "order_by_desc_timestamp msgs = rev (sort_key timestamp (rev msgs))"

text \<open>
  \<open>get_message_history_for_llm\<close>: the first \<open>limit\<close> rows of that order, reversed.
\<close>

definition get_message_history_for_llm :: "db \<Rightarrow> pystr \<Rightarrow> nat \<Rightarrow> (pystr \<times> pystr) list" where
  "get_message_history_for_llm d conv_id limit =
     (let msgs = take limit (order_by_desc_timestamp
                               (filter (\<lambda>m. conversation_id m = conv_id) (messages d)))
      in map (\<lambda>m. (role m, content m)) (rev msgs))"

subsection \<open>The active image\<close>

text \<open>
  A failure of the database inside a call is an argument: which of the calls to the
  database, if any, raises.
\<close>

datatype fault = NoFault | FlushFails | CommitFails

text \<open>
  \<open>set_active_image\<close>. The session does not flush between \<open>db.delete(existing)\<close> and
  \<open>db.add(image_context)\<close>, so the commit inserts the new row while the old one is still
  there, and the unique \<open>conversation_id\<close> refuses it: with an image stored the call
  raises, nothing is committed and the stored image stays. Nothing catches the
  exception.
\<close>

definition set_active_image ::
  "db \<Rightarrow> pystr \<Rightarrow> pystr \<Rightarrow> pystr \<Rightarrow> time \<Rightarrow> fault \<Rightarrow> repo_error option \<times> db" where
  "set_active_image d conv_id image_b64 filename now fault =
     (case conversations d conv_id of
        None \<Rightarrow> (None, d)
      | Some conversation \<Rightarrow>
          (let existing = image_contexts d conv_id;
               s1 = d\<lparr>image_contexts := (image_contexts d)(conv_id \<mapsto>
                        \<lparr>image_base64 = image_b64, img_filename = filename,
                         img_uploaded_at = now\<rparr>)\<rparr>;
               s2 = s1\<lparr>conversations := (conversations s1)(conv_id \<mapsto>
                        conversation\<lparr>has_active_image := True,
                                      image_filename := Some filename,
                                      updated_at := now\<rparr>)\<rparr>
           in if existing \<noteq> None then (Some IntegrityError, d)
              else if fault = CommitFails then (Some DatabaseError, d)
              else (None, commit d s2)))"

definition get_active_image :: "db \<Rightarrow> pystr \<Rightarrow> pystr option" where
  "get_active_image d conv_id =
     (case image_contexts d conv_id of Some image_context \<Rightarrow> Some (image_base64 image_context)
      | None \<Rightarrow> None)"

definition clear_image_context :: "db \<Rightarrow> pystr \<Rightarrow> time \<Rightarrow> db" where
  "clear_image_context d conv_id now =
     (let s1 = d\<lparr>image_contexts := (image_contexts d)(conv_id := None)\<rparr>;
          s2 = (case conversations s1 conv_id of
                  Some conversation \<Rightarrow>
                    s1\<lparr>conversations := (conversations s1)(conv_id \<mapsto>
                         conversation\<lparr>has_active_image := False,
                                       image_filename := None,
                                       updated_at := now\<rparr>)\<rparr>
                | None \<Rightarrow> s1)
      in commit d s2)"

subsection \<open>The active CSV\<close>

text \<open>
  \<open>set_active_csv\<close>. Its argument \<open>csv_data\<close> is the dictionary \<open>parse_csv\<close> built,
  so every key it reads is there. An exception inside the \<open>try\<close> reaches the handler,
  which rolls the session back and raises again.
\<close>

definition set_active_csv ::
  "db \<Rightarrow> pystr \<Rightarrow> csv_data \<Rightarrow> pystr \<Rightarrow> pystr \<Rightarrow> time \<Rightarrow> fault \<Rightarrow> repo_error option \<times> db" where
  "set_active_csv d conv_id csv_data filename summary' now fault =
     (case conversations d conv_id of
        None \<Rightarrow> (None, d)
      | Some conversation \<Rightarrow>
          (let existing = csv_contexts d conv_id;
               s1 = (if existing \<noteq> None
                     then d\<lparr>csv_contexts := (csv_contexts d)(conv_id := None)\<rparr> else d)
           in if existing \<noteq> None \<and> fault = FlushFails
              then (Some DatabaseError, rollback d s1)
              else
                (let full = \<lparr>fd_sample_rows = cd_sample_rows csv_data,
                             fd_numeric_stats = cd_numeric_stats csv_data,
                             fd_missing_values = cd_missing_values csv_data,
                             fd_dtypes = cd_dtypes csv_data\<rparr>;
                     csv_context =
                       \<lparr>cc_filename = filename,
                        cc_row_count = cd_row_count csv_data,
                        cc_column_count = length (cd_columns csv_data),
                        cc_columns = cd_columns csv_data,
                        cc_numeric_columns = cd_numeric_columns csv_data,
                        cc_text_columns = cd_text_columns csv_data,
                        cc_csv_data = full,
                        cc_summary_text = summary',
                        cc_uploaded_at = now\<rparr>;
                     s2 = s1\<lparr>csv_contexts := (csv_contexts s1)(conv_id \<mapsto> csv_context)\<rparr>;
                     s3 = s2\<lparr>conversations := (conversations s2)(conv_id \<mapsto>
                              conversation\<lparr>has_active_csv := True,
                                            csv_filename := Some filename,
                                            csv_summary := Some summary',
                                            updated_at := now\<rparr>)\<rparr>
                 in if fault = CommitFails then (Some DatabaseError, rollback d s3)
                    else (None, commit d s3))))"

text \<open>\<open>get_active_csv\<close> returns the fields of the stored row as a dictionary.\<close>

definition get_active_csv :: "db \<Rightarrow> pystr \<Rightarrow> csv_context option" where
  "get_active_csv d conv_id = csv_contexts d conv_id"

definition get_csv_summary :: "db \<Rightarrow> pystr \<Rightarrow> pystr option" where
  "get_csv_summary d conv_id =
     (case conversations d conv_id of Some conversation \<Rightarrow> csv_summary conversation
      | None \<Rightarrow> None)"

definition clear_csv_context :: "db \<Rightarrow> pystr \<Rightarrow> time \<Rightarrow> db" where
  "clear_csv_context d conv_id now =
     (let s1 = d\<lparr>csv_contexts := (csv_contexts d)(conv_id := None)\<rparr>;
          s2 = (case conversations s1 conv_id of
                  Some conversation \<Rightarrow>
                    s1\<lparr>conversations := (conversations s1)(conv_id \<mapsto>
                         conversation\<lparr>has_active_csv := False,
                                       csv_filename := None,
                                       csv_summary := None,
                                       updated_at := now\<rparr>)\<rparr>
                | None \<Rightarrow> s1)
      in commit d s2)"

text \<open>\<open>clear_all_context\<close>: the two calls share the session; each reads the clock.\<close>

definition clear_all_context :: "db \<Rightarrow> pystr \<Rightarrow> time \<Rightarrow> time \<Rightarrow> db" where
  "clear_all_context d conv_id now1 now2 =
     clear_csv_context (clear_image_context d conv_id now1) conv_id now2"

section \<open>services/llm\_service.py\<close>

text \<open>
  A message of the payload: its content is a string, or a list of parts (a text part, or
  an image part with its URL and its detail).
\<close>

datatype part = TextPart pystr | ImageUrlPart pystr pystr

datatype body = Plain pystr | Parts "part list"

record chat_message =
  cm_role :: pystr
  cm_content :: body

definition text_model :: pystr where
  "text_model = ascii ''meta-llama/llama-4-scout-17b-16e-instruct''"

definition vision_model :: pystr where
  "vision_model = ascii ''meta-llama/llama-4-scout-17b-16e-instruct''"

definition fallback_model :: pystr where
  "fallback_model = ascii ''llama-3.3-70b-versatile''"

definition supports_vision :: bool where
  "supports_vision = True"

text \<open>
  The provider answers a request (a model and a payload) by refusing it with an error,
  or by a finite stream of deltas (\<open>chunk.choices[0].delta.content\<close>, which may be
  \<open>None\<close>) that ends, or breaks with an error after the deltas it delivered.
\<close>

datatype completion = Refused pystr | Stream "pystr option list" "pystr option"

type_synonym client = "pystr \<Rightarrow> chat_message list \<Rightarrow> completion"

text \<open>
  What one \<open>try\<close> block makes of an answer: the deltas it yields (the non-empty ones),
  and the exception it ends with, if any.
\<close>

definition consume :: "completion \<Rightarrow> pystr list \<times> pystr option" where
  "consume c =
     (case c of
        Refused e \<Rightarrow> ([], Some e)
      | Stream deltas ending \<Rightarrow>
          (concat (map (\<lambda>delta. case delta of None \<Rightarrow> []
                                 | Some s \<Rightarrow> if s \<noteq> [] then [s] else []) deltas),
           ending))"

text \<open>The payload: the system prompt, the history, the current turn.\<close>

definition history_messages :: "(pystr \<times> pystr) list \<Rightarrow> chat_message list" where
  "history_messages history =
     concat (map (\<lambda>(r, c).
                    if startswith c (ascii ''[Uploaded'') \<or> startswith c (ascii ''[Loaded'')
                    then [] else [\<lparr>cm_role = r, cm_content = Plain c\<rparr>])
                 (drop (length history - 15) history))"

definition image_given :: "pystr option \<Rightarrow> bool" where
  "image_given image_b64 = (truthy image_b64 \<and> supports_vision)"

definition current_message :: "pystr \<Rightarrow> pystr option \<Rightarrow> chat_message" where
  "current_message message' image_b64 =
     (case image_b64 of
        Some img \<Rightarrow>
          if image_given image_b64
          then \<lparr>cm_role = ascii ''user'',
                cm_content = Parts [TextPart message',
                                    ImageUrlPart (ascii ''data:image/jpeg;base64,'' @ img)
                                                 (ascii ''auto'')]\<rparr>
          else \<lparr>cm_role = ascii ''user'', cm_content = Plain message'\<rparr>
      | None \<Rightarrow> \<lparr>cm_role = ascii ''user'', cm_content = Plain message'\<rparr>)"

definition build_messages ::
  "pystr \<Rightarrow> pystr \<Rightarrow> (pystr \<times> pystr) list \<Rightarrow> pystr option \<Rightarrow> chat_message list" where
  "build_messages system_prompt message' history image_b64 =
     [\<lparr>cm_role = ascii ''system'', cm_content = Plain system_prompt\<rparr>]
     @ history_messages history
     @ [current_message message' image_b64]"

definition model_to_use :: "pystr option \<Rightarrow> pystr" where
  "model_to_use image_b64 = (if image_given image_b64 then vision_model else text_model)"

text \<open>
  The fallback payload. The placeholder is the source's Vietnamese sentence in square
  brackets, given by its code points.
\<close>

definition image_placeholder :: pystr where
  "image_placeholder =
     [91, 7842, 110, 104, 32, 273, 227, 32, 273, 432, 7907, 99, 32, 103, 7917, 105, 32,
      110, 104, 432, 110, 103, 32, 109, 111, 100, 101, 108, 32, 107, 104, 244, 110, 103,
      32, 116, 104, 7875, 32, 120, 7917, 32, 108, 253, 93]"

definition first_text :: "part list \<Rightarrow> pystr" where
  "first_text cs =
     (case concat (map (\<lambda>c. case c of TextPart t \<Rightarrow> [t] | ImageUrlPart _ _ \<Rightarrow> []) cs) of
        [] \<Rightarrow> [] | t # _ \<Rightarrow> t)"

definition fallback_messages :: "chat_message list \<Rightarrow> chat_message list" where
  "fallback_messages msgs =
     map (\<lambda>msg. case cm_content msg of
                   Parts cs \<Rightarrow>
                     \<lparr>cm_role = cm_role msg,
                      cm_content = Plain (image_placeholder @ [10] @ first_text cs)\<rparr>
                 | Plain _ \<Rightarrow> msg)
         msgs"

definition apology :: "pystr \<Rightarrow> pystr" where
  "apology e = ascii ''I apologize, but I encountered an error: '' @ e"

text \<open>
  \<open>generate_response_stream\<close>. The system prompt is \<open>_build_system_prompt\<close>'s result,
  computed before any request. The result of the generator is what it yields, in order,
  the requests it made, and the exception that leaves it, if any: both \<open>except\<close>
  clauses catch every \<open>Exception\<close> of their \<open>try\<close>, and the second one yields only.
\<close>

record generation =
  yielded :: "pystr list"
  requests :: "(pystr \<times> chat_message list) list"
  raised :: "pystr option"

definition generate_response_stream ::
  "client \<Rightarrow> pystr \<Rightarrow> pystr \<Rightarrow> (pystr \<times> pystr) list \<Rightarrow> pystr option \<Rightarrow> generation" where
  "generate_response_stream provider system_prompt message' history image_b64 =
     (let msgs = build_messages system_prompt message' history image_b64;
          m = model_to_use image_b64
      in case consume (provider m msgs) of
           (chunks, None) \<Rightarrow>
             \<lparr>yielded = chunks, requests = [(m, msgs)], raised = None\<rparr>
         | (chunks, Some e) \<Rightarrow>
             (let fallback = fallback_messages msgs
              in case consume (provider fallback_model fallback) of
                   (chunks2, None) \<Rightarrow>
                     \<lparr>yielded = chunks @ chunks2,
                      requests = [(m, msgs), (fallback_model, fallback)],
                      raised = None\<rparr>
                 | (chunks2, Some fallback_error) \<Rightarrow>
                     \<lparr>yielded = chunks @ chunks2 @ [apology e],
                      requests = [(m, msgs), (fallback_model, fallback)],
                      raised = None\<rparr>))"

section \<open>api/routes\<close>

subsection \<open>Get or create the session\<close>

text \<open>
  The chat stream and the two uploads resolve the session with one and the same block:
  a supplied identifier (a non-empty string) that names a stored conversation is kept;
  in every other case a conversation is created and its identifier is used.
\<close>

definition get_or_create_session ::
  "db \<Rightarrow> pystr option \<Rightarrow> pystr \<Rightarrow> time \<Rightarrow> repo_error + db \<times> pystr" where
  "get_or_create_session d session_id new_id now =
     (case session_id of
        Some sid \<Rightarrow>
          if sid \<noteq> []
          then (case get_conversation d sid of
                  Some conv \<Rightarrow> Inr (d, sid)
                | None \<Rightarrow> create_conversation d new_id now)
          else create_conversation d new_id now
      | None \<Rightarrow> create_conversation d new_id now)"

subsection \<open>chat.py: send\_message\_stream\<close>

record chat_request =
  rq_message :: pystr
  rq_session_id :: "pystr option"
  rq_image_base64 :: "pystr option"

text \<open>The events of the stream; an error event carries the text of its exception.\<close>

datatype failure = GeneratorError pystr | StoreError repo_error

datatype event = SessionEvent pystr | ChunkEvent pystr | DoneEvent pystr | ErrorEvent failure

type_synonym prompt_builder = "csv_context option \<Rightarrow> pystr option \<Rightarrow> pystr"

text \<open>
  The handler and the generator it returns, consumed to its end. An exception of the
  handler itself (before the stream starts) is the \<open>Inl\<close> result. The arguments after
  the request are the identifier and the clock reading of a created conversation, and
  those of the user message and of the assistant message.
\<close>

definition send_message_stream ::
  "client \<Rightarrow> prompt_builder \<Rightarrow> db \<Rightarrow> chat_request \<Rightarrow> pystr \<Rightarrow> time \<Rightarrow> pystr \<Rightarrow> time
    \<Rightarrow> pystr \<Rightarrow> time \<Rightarrow> repo_error + event list \<times> db" where
  "send_message_stream provider build_system_prompt d request new_id t0 uid t1 aid t2 =
     (case get_or_create_session d (rq_session_id request) new_id t0 of
        Inl e \<Rightarrow> Inl e
      | Inr (d1, session_id) \<Rightarrow>
          (case add_message d1 session_id (ascii ''user'') (rq_message request)
                  None None None uid t1 of
             Inl e \<Rightarrow> Inl e
           | Inr (d2, user_message) \<Rightarrow>
               (let active_image = get_active_image d2 session_id;
                    active_csv = get_active_csv d2 session_id;
                    csv_summary' = get_csv_summary d2 session_id;
                    history = get_message_history_for_llm d2 session_id 20;
                    image_to_use = (if truthy (rq_image_base64 request)
                                    then rq_image_base64 request else active_image);
                    g = generate_response_stream provider
                          (build_system_prompt active_csv csv_summary')
                          (rq_message request) (butlast history) image_to_use;
                    full_response = concat (yielded g);
                    started = SessionEvent session_id # map ChunkEvent (yielded g)
                in case raised g of
                     Some e \<Rightarrow> Inr (started @ [ErrorEvent (GeneratorError e)], d2)
                   | None \<Rightarrow>
                       (case add_message d2 session_id (ascii ''assistant'') full_response
                               None None None aid t2 of
                          Inl e \<Rightarrow> Inr (started @ [ErrorEvent (StoreError e)], d2)
                        | Inr (d3, assistant_message) \<Rightarrow>
                            Inr (started @ [DoneEvent session_id], d3)))))"

subsection \<open>csv.py: upload\_csv\<close>

text \<open>
  The handler from the session block on: the file has passed the checks of its name and
  size, its decoding and \<open>parse_csv\<close>, each of which answers 400 before the store is
  touched. \<open>csv_data\<close> and \<open>summary\<close> are \<open>parse_csv\<close>'s results.
\<close>

record csv_upload_response =
  ur_session_id :: pystr
  ur_message :: pystr
  ur_filename :: pystr
  ur_summary :: summary

definition upload_csv ::
  "db \<Rightarrow> pystr option \<Rightarrow> pystr \<Rightarrow> csv_data \<Rightarrow> summary \<Rightarrow> pystr \<Rightarrow> time \<Rightarrow> time \<Rightarrow> fault
    \<Rightarrow> pystr \<Rightarrow> time \<Rightarrow> pystr \<Rightarrow> time \<Rightarrow> repo_error + csv_upload_response \<times> db" where
  "upload_csv d session_id filename csv_data summary' new_id t0 t1 fault uid t2 aid t3 =
     (case get_or_create_session d session_id new_id t0 of
        Inl e \<Rightarrow> Inl e
      | Inr (d1, sid) \<Rightarrow>
          (case set_active_csv d1 sid csv_data filename (sm_text_summary summary') t1 fault of
             (Some e, d2) \<Rightarrow> Inl e
           | (None, d2) \<Rightarrow>
               (case add_message d2 sid (ascii ''user'')
                       (ascii ''[Uploaded CSV: '' @ filename @ ascii '']'') None
                       (Some \<lparr>ui_filename = filename, ui_rows = sm_row_count summary',
                              ui_columns = sm_column_count summary', ui_url = None\<rparr>)
                       None uid t2 of
                  Inl e \<Rightarrow> Inl e
                | Inr (d3, m1) \<Rightarrow>
                    (case add_message d3 sid (ascii ''assistant'')
                            (ascii ''I'' @ [39] @ ascii ''ve loaded the CSV file **'' @ filename
                             @ ascii ''**.'' @ [10, 10] @ sm_text_summary summary'
                             @ [10, 10] @ ascii ''You can now ask me questions like:'' @ [10]
                             @ ascii ''- '' @ [34] @ ascii ''Summarize the dataset'' @ [34, 10]
                             @ ascii ''- '' @ [34] @ ascii ''Show stats for [column name]''
                             @ [34, 10] @ ascii ''- '' @ [34]
                             @ ascii ''Which column has the most missing values?'' @ [34, 10]
                             @ ascii ''- '' @ [34]
                             @ ascii ''Plot a histogram of [numeric column]'' @ [34])
                            None None None aid t3 of
                       Inl e \<Rightarrow> Inl e
                     | Inr (d4, m2) \<Rightarrow>
                         Inr (\<lparr>ur_session_id = sid,
                               ur_message = ascii ''CSV '' @ [39] @ filename @ [39]
                                            @ ascii '' loaded successfully!'',
                               ur_filename = filename,
                               ur_summary = summary'\<rparr>, d4)))))"

subsection \<open>image.py: upload\_image\<close>

text \<open>
  The handler from the session block on: the file has passed the checks of its type and
  size. \<open>analysis\<close> is the answer of \<open>analyze_image\<close>, which returns a string in every
  case.
\<close>

record image_upload_response =
  ir_message :: pystr
  ir_session_id :: pystr
  ir_analysis :: pystr
  ir_image_preview :: pystr
  ir_filename :: pystr

definition upload_image ::
  "db \<Rightarrow> pystr option \<Rightarrow> pystr \<Rightarrow> pystr \<Rightarrow> pystr \<Rightarrow> pystr \<Rightarrow> pystr \<Rightarrow> time \<Rightarrow> time \<Rightarrow> fault
    \<Rightarrow> pystr \<Rightarrow> time \<Rightarrow> pystr \<Rightarrow> time \<Rightarrow> repo_error + image_upload_response \<times> db" where
  "upload_image d session_id base64_image image_data_url filename analysis
       new_id t0 t1 fault uid t2 aid t3 =
     (case get_or_create_session d session_id new_id t0 of
        Inl e \<Rightarrow> Inl e
      | Inr (d1, sid) \<Rightarrow>
          (case set_active_image d1 sid base64_image filename t1 fault of
             (Some e, d2) \<Rightarrow> Inl e
           | (None, d2) \<Rightarrow>
               (case add_message d2 sid (ascii ''user'')
                       (ascii ''[Uploaded image: '' @ filename @ ascii '']'')
                       (Some image_data_url) None None uid t2 of
                  Inl e \<Rightarrow> Inl e
                | Inr (d3, m1) \<Rightarrow>
                    (case add_message d3 sid (ascii ''assistant'') analysis
                            None None None aid t3 of
                       Inl e \<Rightarrow> Inl e
                     | Inr (d4, m2) \<Rightarrow>
                         Inr (\<lparr>ir_message = ascii ''Image '' @ [39] @ filename @ [39]
                                            @ ascii '' uploaded successfully'',
                               ir_session_id = sid,
                               ir_analysis = analysis,
                               ir_image_preview = image_data_url,
                               ir_filename = filename\<rparr>, d4)))))"

section \<open>Notions the properties are stated with\<close>

text \<open>The URLs of the image parts of a payload.\<close>

definition image_urls :: "chat_message list \<Rightarrow> pystr list" where
  "image_urls msgs =
     concat (map (\<lambda>msg. case cm_content msg of
                          Plain _ \<Rightarrow> []
                        | Parts cs \<Rightarrow>
                            concat (map (\<lambda>c. case c of TextPart _ \<Rightarrow> []
                                              | ImageUrlPart url _ \<Rightarrow> [url]) cs))
                 msgs)"

text \<open>A provider whose first answer breaks after one delta and whose fallback refuses.\<close>

definition failing_provider :: client where
  "failing_provider m msgs =
     (if m = fallback_model then Refused (ascii ''quota'')
      else Stream [Some (ascii ''Hel''), None, Some []] (Some (ascii ''reset'')))"

text \<open>
  A sequence of calls to the repository, applied to the database in order; a call that
  raises leaves the database as it was.
\<close>

datatype store_op =
    Create pystr time
  | Append pystr pystr pystr "pystr option" "upload_info option" "json option" pystr time
  | SetImage pystr pystr pystr time fault
  | ClearImage pystr time
  | SetCsv pystr csv_data pystr pystr time fault
  | ClearCsv pystr time
  | ClearAll pystr time time
  | Delete pystr

fun apply_op :: "db \<Rightarrow> store_op \<Rightarrow> db" where
  "apply_op d (Create conv_id now) =
     (case create_conversation d conv_id now of Inl e \<Rightarrow> d | Inr (d', new_id) \<Rightarrow> d')"
| "apply_op d (Append conv_id r c iu ci cd new_id now) =
     (case add_message d conv_id r c iu ci cd new_id now of Inl e \<Rightarrow> d | Inr (d', m) \<Rightarrow> d')"
| "apply_op d (SetImage conv_id img filename now fault) =
     snd (set_active_image d conv_id img filename now fault)"
| "apply_op d (ClearImage conv_id now) = clear_image_context d conv_id now"
| "apply_op d (SetCsv conv_id csv_data filename summary' now fault) =
     snd (set_active_csv d conv_id csv_data filename summary' now fault)"
| "apply_op d (ClearCsv conv_id now) = clear_csv_context d conv_id now"
| "apply_op d (ClearAll conv_id now1 now2) = clear_all_context d conv_id now1 now2"
| "apply_op d (Delete conv_id) = fst (delete_conversation d conv_id)"

definition run_ops :: "db \<Rightarrow> store_op list \<Rightarrow> db" where
  "run_ops d ops = foldl apply_op d ops"

text \<open>
  A CSV context row is stored under an identifier exactly when that identifier names a
  conversation whose \<open>has_active_csv\<close> flag is set.
\<close>

definition flag_matches_data :: "db \<Rightarrow> bool" where
  "flag_matches_data d =
     (\<forall>conv_id. (csv_contexts d conv_id \<noteq> None)
                 = (case conversations d conv_id of
                      Some conversation \<Rightarrow> has_active_csv conversation
                    | None \<Rightarrow> False))"

text \<open>The database with the session's last-update timestamp set, and nothing else changed.\<close>

definition with_updated_at :: "db \<Rightarrow> pystr \<Rightarrow> time \<Rightarrow> db" where
  "with_updated_at d conv_id now =
     (case conversations d conv_id of
        Some conversation \<Rightarrow>
          d\<lparr>conversations := (conversations d)(conv_id \<mapsto> conversation\<lparr>updated_at := now\<rparr>)\<rparr>
      | None \<Rightarrow> d)"

text \<open>A database with one conversation, as \<open>create_conversation\<close> leaves it at time 0.\<close>

definition one_session_db :: db where
  "one_session_db =
     empty_db\<lparr>conversations := [ascii ''s1'' \<mapsto>
        \<lparr>created_at = 0, updated_at = 0, title = None,
         has_active_image = False, image_filename = None,
         has_active_csv = False, csv_filename = None, csv_summary = None\<rparr>]\<rparr>"

text \<open>A small frame, and the dictionary \<open>parse_csv\<close> builds from it.\<close>

definition small_frame :: frame where
  "small_frame =
     \<lparr>nrows = 2,
      fcols = [\<lparr>cname = ascii ''n'', ctype = Float64, cells = [Num 4, Null]\<rparr>,
               \<lparr>cname = ascii ''b'', ctype = Object, cells = [Str (ascii ''x''), Null]\<rparr>]\<rparr>"

definition no_text_summary :: text_summary_fn where
  "no_text_summary df filename numeric_columns text_columns missing_values = []"

definition small_csv_data :: csv_data where
  "small_csv_data = fst (summarize no_text_summary small_frame (ascii ''data.csv''))"

text \<open>
  A sequence of \<open>add_message\<close> calls to one conversation, and the title it leaves. A call
  qualifies for the title when it is a user message whose content does not begin with an
  opening bracket.
\<close>


record append_call =
  ac_role :: pystr
  ac_content :: pystr
  ac_image_url :: "pystr option"
  ac_csv_data :: "upload_info option"
  ac_chart_data :: "json option"
  ac_id :: pystr
  ac_now :: time

fun add_messages :: "db \<Rightarrow> pystr \<Rightarrow> append_call list \<Rightarrow> repo_error + db" where
  "add_messages d conv_id [] = Inr d"
| "add_messages d conv_id (c # cs) =
     (case add_message d conv_id (ac_role c) (ac_content c) (ac_image_url c) (ac_csv_data c)
             (ac_chart_data c) (ac_id c) (ac_now c) of
        Inl e \<Rightarrow> Inl e
      | Inr (d', m) \<Rightarrow> add_messages d' conv_id cs)"

definition qualifies :: "append_call \<Rightarrow> bool" where
  "qualifies c = (ac_role c = ascii ''user'' \<and> \<not> startswith (ac_content c) (ascii ''[''))"

text \<open>
  What the callers pass: the chat route a message of at least one character, the upload
  routes a marker; the content of a user message is never empty.
\<close>

definition user_content_given :: "append_call \<Rightarrow> bool" where
  "user_content_given c = (if ac_role c = ascii ''user'' then ac_content c \<noteq> [] else True)"

definition user_call :: "pystr \<Rightarrow> append_call" where
  "user_call c = \<lparr>ac_role = ascii ''user'', ac_content = c, ac_image_url = None,
                  ac_csv_data = None, ac_chart_data = None, ac_id = [], ac_now = 1\<rparr>"

definition title_after :: "db \<Rightarrow> pystr \<Rightarrow> append_call list \<Rightarrow> pystr option option" where
  "title_after d conv_id calls =
     (case add_messages d conv_id calls of
        Inl e \<Rightarrow> None
      | Inr d' \<Rightarrow> map_option title (conversations d' conv_id))"

text \<open>The two prefixes the history filter of the LLM service looks for.\<close>

definition is_upload_marker :: "pystr \<Rightarrow> bool" where
  "is_upload_marker c = (startswith c (ascii ''[Uploaded'') \<or> startswith c (ascii ''[Loaded''))"

text \<open>
  The session identifiers a stream announces (in its session and done events), and the
  conversations the messages added between two states of the database were written to.
\<close>


definition announced_ids :: "event list \<Rightarrow> pystr list" where
  "announced_ids events =
     concat (map (\<lambda>ev. case ev of SessionEvent sid \<Rightarrow> [sid] | DoneEvent sid \<Rightarrow> [sid]
                        | ChunkEvent _ \<Rightarrow> [] | ErrorEvent _ \<Rightarrow> []) events)"

definition written_ids :: "db \<Rightarrow> db \<Rightarrow> pystr list" where
  "written_ids d d' = map conversation_id (drop (length (messages d)) (messages d'))"


text \<open>A chat request that names a session the store does not hold.\<close>

definition ghost_request :: chat_request where
  "ghost_request = \<lparr>rq_message = ascii ''hi'', rq_session_id = Some (ascii ''ghost''),
                    rq_image_base64 = None\<rparr>"

text \<open>A frame of 1001 rows whose only missing cell is in the last row.\<close>

definition big_frame :: frame where
  "big_frame =
     \<lparr>nrows = 1001,
      fcols = [\<lparr>cname = ascii ''n'', ctype = Float64,
                cells = replicate 1000 (Num 1) @ [Null]\<rparr>]\<rparr>"

text \<open>The text of the scenario: three rows, two columns, one empty field.\<close>

definition scenario_text :: pystr where
  "scenario_text =
     ascii ''a,b'' @ [10] @ ascii ''1,x'' @ [10] @ ascii ''2,'' @ [10] @ ascii ''3,z''"

text \<open>A reader that reads plain comma-separated text as above and refuses any other.\<close>

definition plain_reader :: reader where
  "plain_reader content' =
     (case read_plain content' of
        Some df \<Rightarrow> Inr df
      | None \<Rightarrow> Inl (OtherReadError (ascii ''not plain comma-separated text'')))"

section \<open>The completion orchestrator\<close>

lemma image_urls_fallback: "image_urls (fallback_messages msgs) = []"
  by (induction msgs) (auto simp: image_urls_def fallback_messages_def split: body.splits)

lemma plain_entries_image_urls:
  "image_urls (concat (map (\<lambda>(r, c). if P c then [] else [\<lparr>cm_role = r, cm_content = Plain c\<rparr>])
                           xs)) = []"
  by (induction xs) (auto simp: image_urls_def)

lemma plain_entries_fallback:
  "fallback_messages
     (concat (map (\<lambda>(r, c). if P c then [] else [\<lparr>cm_role = r, cm_content = Plain c\<rparr>]) xs))
   = concat (map (\<lambda>(r, c). if P c then [] else [\<lparr>cm_role = r, cm_content = Plain c\<rparr>]) xs)"
  by (induction xs) (auto simp: fallback_messages_def)

lemma image_urls_history: "image_urls (history_messages h) = []"
  unfolding history_messages_def by (rule plain_entries_image_urls)

lemma fallback_history: "fallback_messages (history_messages h) = history_messages h"
  unfolding history_messages_def by (rule plain_entries_fallback)

lemma models_differ: "text_model \<noteq> fallback_model" "vision_model \<noteq> fallback_model"
  by (simp_all add: text_model_def vision_model_def fallback_model_def ascii_def)

text \<open>
  C5. When the primary request fails (refused, or broken in mid-stream) and the fallback
  request fails too, the generator yields the deltas of the primary answer, then those of
  the fallback answer, then one last element: the sentence
  \<open>I apologize, but I encountered an error: \<close> followed by the message of the primary
  error. No exception leaves the generator.
\<close>

theorem both_calls_fail_ends_with_apology:
  assumes "snd (consume (provider (model_to_use image_b64)
                  (build_messages system_prompt message' history image_b64))) = Some e"
    and "snd (consume (provider fallback_model
                  (fallback_messages
                     (build_messages system_prompt message' history image_b64)))) = Some e2"
  shows "yielded (generate_response_stream provider system_prompt message' history image_b64)
           = fst (consume (provider (model_to_use image_b64)
                    (build_messages system_prompt message' history image_b64)))
             @ fst (consume (provider fallback_model
                      (fallback_messages
                         (build_messages system_prompt message' history image_b64))))
             @ [ascii ''I apologize, but I encountered an error: '' @ e]
       \<and> last (yielded (generate_response_stream provider system_prompt message' history
                  image_b64))
           = [73, 32, 97, 112, 111, 108, 111, 103, 105, 122, 101, 44, 32, 98, 117, 116, 32,
              73, 32, 101, 110, 99, 111, 117, 110, 116, 101, 114, 101, 100, 32, 97, 110, 32,
              101, 114, 114, 111, 114, 58, 32] @ e
       \<and> raised (generate_response_stream provider system_prompt message' history image_b64)
           = None"
proof -
  have sentence: "ascii ''I apologize, but I encountered an error: ''
      = [73, 32, 97, 112, 111, 108, 111, 103, 105, 122, 101, 44, 32, 98, 117, 116, 32,
         73, 32, 101, 110, 99, 111, 117, 110, 116, 101, 114, 101, 100, 32, 97, 110, 32,
         101, 114, 114, 111, 114, 58, 32]"
    by (simp add: ascii_def)
  show ?thesis
    using assms
    by (auto simp: generate_response_stream_def Let_def apology_def sentence
          split: prod.splits option.splits)
qed

theorem both_calls_fail_witness:
  "snd (consume (failing_provider (model_to_use None)
          (build_messages (ascii ''sys'') (ascii ''hi'') [] None))) = Some (ascii ''reset'')
   \<and> snd (consume (failing_provider fallback_model
          (fallback_messages (build_messages (ascii ''sys'') (ascii ''hi'') [] None))))
       = Some (ascii ''quota'')
   \<and> yielded (generate_response_stream failing_provider (ascii ''sys'') (ascii ''hi'') [] None)
       = [ascii ''Hel'', ascii ''I apologize, but I encountered an error: reset'']
   \<and> last (yielded (generate_response_stream failing_provider (ascii ''sys'') (ascii ''hi'')
              [] None)) = ascii ''I apologize, but I encountered an error: reset''
   \<and> raised (generate_response_stream failing_provider (ascii ''sys'') (ascii ''hi'') [] None)
       = None"
  using both_calls_fail_ends_with_apology
          [of failing_provider None "ascii ''sys''" "ascii ''hi''" "[]"
              "ascii ''reset''" "ascii ''quota''"]
        models_differ
  by (simp add: consume_def failing_provider_def model_to_use_def image_given_def truthy_def
        ascii_def)

text \<open>
  C6. When the turn carries an image (a non-empty base64 string) and the primary request
  fails, exactly two requests are made: the first to the vision model with the payload
  whose last message holds the text and the image URL, the second to the fallback model
  with the payload in which that message is a text: the source's bracketed Vietnamese
  sentence (an image was sent but the model cannot process it), a line feed, and the
  user's text. The fallback payload has no image part at all, and is otherwise the
  payload of the first request.
\<close>

theorem fallback_replaces_image_by_text:
  assumes "image_b64 = Some img" and "img \<noteq> []"
    and "snd (consume (provider (model_to_use image_b64)
                  (build_messages system_prompt message' history image_b64))) = Some e"
  shows "requests (generate_response_stream provider system_prompt message' history image_b64)
           = [(ascii ''meta-llama/llama-4-scout-17b-16e-instruct'',
               build_messages system_prompt message' history image_b64),
              (ascii ''llama-3.3-70b-versatile'',
               fallback_messages (build_messages system_prompt message' history image_b64))]
       \<and> image_urls (build_messages system_prompt message' history image_b64)
           = [ascii ''data:image/jpeg;base64,'' @ img]
       \<and> image_urls (fallback_messages
                        (build_messages system_prompt message' history image_b64)) = []
       \<and> fallback_messages (build_messages system_prompt message' history image_b64)
           = butlast (build_messages system_prompt message' history image_b64)
             @ [\<lparr>cm_role = ascii ''user'',
                  cm_content =
                    Plain ([91, 7842, 110, 104, 32, 273, 227, 32, 273, 432, 7907, 99, 32, 103, 7917, 105, 32,
                      110, 104, 432, 110, 103, 32, 109, 111, 100, 101, 108, 32, 107, 104, 244,
                      110, 103, 32, 116, 104, 7875, 32, 120, 7917, 32, 108, 253, 93]
                           @ [10] @ message')\<rparr>]"
proof -
  let ?msgs = "build_messages system_prompt message' history image_b64"
  have given: "image_given image_b64"
    using assms(1,2) by (simp add: image_given_def truthy_def supports_vision_def)
  have req: "requests (generate_response_stream provider system_prompt message' history
                image_b64)
               = [(ascii ''meta-llama/llama-4-scout-17b-16e-instruct'', ?msgs),
                  (ascii ''llama-3.3-70b-versatile'', fallback_messages ?msgs)]"
    using assms(3) given
    by (auto simp: generate_response_stream_def Let_def model_to_use_def vision_model_def
          fallback_model_def split: prod.splits option.splits)
  have cur: "current_message message' image_b64
               = \<lparr>cm_role = ascii ''user'',
                  cm_content = Parts [TextPart message',
                                      ImageUrlPart (ascii ''data:image/jpeg;base64,'' @ img)
                                                   (ascii ''auto'')]\<rparr>"
    using given assms(1) by (simp add: current_message_def)
  have urls: "image_urls ?msgs = [ascii ''data:image/jpeg;base64,'' @ img]"
    using image_urls_history [of history]
    by (simp add: build_messages_def cur image_urls_def)
  have fb: "fallback_messages ?msgs
              = butlast ?msgs
                @ [\<lparr>cm_role = ascii ''user'',
                     cm_content =
                       Plain ([91, 7842, 110, 104, 32, 273, 227, 32, 273, 432, 7907, 99, 32, 103, 7917, 105, 32,
                      110, 104, 432, 110, 103, 32, 109, 111, 100, 101, 108, 32, 107, 104, 244,
                      110, 103, 32, 116, 104, 7875, 32, 120, 7917, 32, 108, 253, 93]
                              @ [10] @ message')\<rparr>]"
    using fallback_history [of history]
    by (simp add: build_messages_def cur fallback_messages_def butlast_append first_text_def
          image_placeholder_def)
  show ?thesis
    by (intro conjI) (rule req, rule urls, rule image_urls_fallback, rule fb)
qed

theorem fallback_replaces_image_witness:
  "Some (ascii ''QUJD'') = Some (ascii ''QUJD'') \<and> ascii ''QUJD'' \<noteq> []
   \<and> snd (consume (failing_provider (model_to_use (Some (ascii ''QUJD'')))
            (build_messages (ascii ''sys'') (ascii ''look'') [] (Some (ascii ''QUJD'')))))
       = Some (ascii ''reset'')
   \<and> requests (generate_response_stream failing_provider (ascii ''sys'') (ascii ''look'') []
                 (Some (ascii ''QUJD'')))
       = [(ascii ''meta-llama/llama-4-scout-17b-16e-instruct'',
           [\<lparr>cm_role = ascii ''system'', cm_content = Plain (ascii ''sys'')\<rparr>,
            \<lparr>cm_role = ascii ''user'',
             cm_content = Parts [TextPart (ascii ''look''),
                                 ImageUrlPart (ascii ''data:image/jpeg;base64,QUJD'')
                                              (ascii ''auto'')]\<rparr>]),
          (ascii ''llama-3.3-70b-versatile'',
           [\<lparr>cm_role = ascii ''system'', cm_content = Plain (ascii ''sys'')\<rparr>,
            \<lparr>cm_role = ascii ''user'',
             cm_content =
               Plain ([91, 7842, 110, 104, 32, 273, 227, 32, 273, 432, 7907, 99, 32, 103, 7917, 105, 32,
                      110, 104, 432, 110, 103, 32, 109, 111, 100, 101, 108, 32, 107, 104, 244,
                      110, 103, 32, 116, 104, 7875, 32, 120, 7917, 32, 108, 253, 93]
                      @ [10] @ ascii ''look'')\<rparr>])]"
  using fallback_replaces_image_by_text
          [of "Some (ascii ''QUJD'')" "ascii ''QUJD''" failing_provider "ascii ''sys''"
              "ascii ''look''" "[]" "ascii ''reset''"]
        models_differ
  by (simp add: consume_def failing_provider_def model_to_use_def image_given_def truthy_def
        supports_vision_def build_messages_def history_messages_def current_message_def
        fallback_messages_def first_text_def ascii_def vision_model_def text_model_def
        fallback_model_def)

section \<open>The context store\<close>

lemma flag_matches_empty: "flag_matches_data empty_db"
  by (simp add: flag_matches_data_def empty_db_def)

lemma flag_matches_dataD:
  "flag_matches_data d \<Longrightarrow>
     (csv_contexts d k \<noteq> None)
       = (case conversations d k of Some conversation \<Rightarrow> has_active_csv conversation
          | None \<Rightarrow> False)"
  by (simp add: flag_matches_data_def)

lemma flag_matches_create:
  assumes "flag_matches_data d" and "create_conversation d c now = Inr (d', x)"
  shows "flag_matches_data d'"
  unfolding flag_matches_data_def
proof
  fix k
  show "(csv_contexts d' k \<noteq> None)
          = (case conversations d' k of Some conversation \<Rightarrow> has_active_csv conversation
             | None \<Rightarrow> False)"
    using flag_matches_dataD [OF assms(1), of k] assms(2)
    by (auto simp: create_conversation_def commit_def split: if_splits)
qed

lemma flag_matches_add:
  assumes "flag_matches_data d" and "add_message d c r ct iu ci cd nid now = Inr (d', m)"
  shows "flag_matches_data d'"
  unfolding flag_matches_data_def
proof
  fix k
  show "(csv_contexts d' k \<noteq> None)
          = (case conversations d' k of Some conversation \<Rightarrow> has_active_csv conversation
             | None \<Rightarrow> False)"
    using flag_matches_dataD [OF assms(1), of k] assms(2)
    by (cases "conversations d c") (auto simp: add_message_def commit_def Let_def split: if_splits)
qed

lemma flag_matches_set_image:
  assumes "flag_matches_data d"
  shows "flag_matches_data (snd (set_active_image d c img f now fault))"
  unfolding flag_matches_data_def
proof
  fix k
  show "(csv_contexts (snd (set_active_image d c img f now fault)) k \<noteq> None)
          = (case conversations (snd (set_active_image d c img f now fault)) k of
               Some conversation \<Rightarrow> has_active_csv conversation | None \<Rightarrow> False)"
    using flag_matches_dataD [OF assms, of k]
    by (cases "conversations d c") (auto simp: set_active_image_def commit_def Let_def)
qed

lemma flag_matches_clear_image:
  assumes "flag_matches_data d"
  shows "flag_matches_data (clear_image_context d c now)"
  unfolding flag_matches_data_def
proof
  fix k
  show "(csv_contexts (clear_image_context d c now) k \<noteq> None)
          = (case conversations (clear_image_context d c now) k of
               Some conversation \<Rightarrow> has_active_csv conversation | None \<Rightarrow> False)"
    using flag_matches_dataD [OF assms, of k]
    by (cases "conversations d c") (auto simp: clear_image_context_def commit_def Let_def)
qed

lemma flag_matches_set_csv:
  assumes "flag_matches_data d"
  shows "flag_matches_data (snd (set_active_csv d c cd f s now fault))"
  unfolding flag_matches_data_def
proof
  fix k
  show "(csv_contexts (snd (set_active_csv d c cd f s now fault)) k \<noteq> None)
          = (case conversations (snd (set_active_csv d c cd f s now fault)) k of
               Some conversation \<Rightarrow> has_active_csv conversation | None \<Rightarrow> False)"
    using flag_matches_dataD [OF assms, of k]
    by (cases "conversations d c")
       (auto simp: set_active_csv_def commit_def rollback_def Let_def)
qed

lemma flag_matches_clear_csv:
  assumes "flag_matches_data d"
  shows "flag_matches_data (clear_csv_context d c now)"
  unfolding flag_matches_data_def
proof
  fix k
  show "(csv_contexts (clear_csv_context d c now) k \<noteq> None)
          = (case conversations (clear_csv_context d c now) k of
               Some conversation \<Rightarrow> has_active_csv conversation | None \<Rightarrow> False)"
    using flag_matches_dataD [OF assms, of k] flag_matches_dataD [OF assms, of c]
    by (cases "conversations d c") (auto simp: clear_csv_context_def commit_def Let_def)
qed

lemma flag_matches_delete:
  assumes "flag_matches_data d"
  shows "flag_matches_data (fst (delete_conversation d c))"
  unfolding flag_matches_data_def
proof
  fix k
  show "(csv_contexts (fst (delete_conversation d c)) k \<noteq> None)
          = (case conversations (fst (delete_conversation d c)) k of
               Some conversation \<Rightarrow> has_active_csv conversation | None \<Rightarrow> False)"
    using flag_matches_dataD [OF assms, of k] flag_matches_dataD [OF assms, of c]
    by (cases "conversations d c") (auto simp: delete_conversation_def commit_def)
qed

lemma flag_matches_apply: "flag_matches_data d \<Longrightarrow> flag_matches_data (apply_op d op)"
proof (cases op)
  case (Create c now)
  assume "flag_matches_data d"
  then show ?thesis using Create flag_matches_create [of d c now]
    by (auto split: sum.splits)
next
  case (Append c r ct iu ci cd nid now)
  assume "flag_matches_data d"
  then show ?thesis using Append flag_matches_add [of d c r ct iu ci cd nid now]
    by (auto split: sum.splits)
qed (simp_all add: flag_matches_set_image flag_matches_clear_image flag_matches_set_csv flag_matches_clear_csv flag_matches_delete clear_all_context_def)

lemma flag_matches_run: "flag_matches_data d \<Longrightarrow> flag_matches_data (run_ops d ops)"
  unfolding run_ops_def by (induction ops arbitrary: d) (simp_all add: flag_matches_apply)

text \<open>
  C4. After any sequence of repository calls from the empty database (creating and
  deleting conversations, appending messages, setting and clearing the image, setting
  the CSV context over none or over an existing one, with or without a failure of the
  flush or of the commit that the handler rolls back, and clearing it), every stored
  conversation has its \<open>has_active_csv\<close> flag set if and only if \<open>get_active_csv\<close> finds
  a stored CSV context for it.
\<close>

theorem csv_flag_iff_context_stored:
  assumes "conversations (run_ops empty_db ops) conv_id = Some conversation"
  shows "has_active_csv conversation = (get_active_csv (run_ops empty_db ops) conv_id \<noteq> None)"
  using flag_matches_run [OF flag_matches_empty, of ops] assms
  by (auto simp: flag_matches_data_def get_active_csv_def split: option.splits)


theorem csv_flag_iff_context_stored_witness:
  "conversations
     (run_ops empty_db
        [Create (ascii ''s1'') 0,
         SetCsv (ascii ''s1'') small_csv_data (ascii ''a.csv'') (ascii ''A'') 1 NoFault,
         SetCsv (ascii ''s1'') small_csv_data (ascii ''b.csv'') (ascii ''B'') 2 CommitFails])
     (ascii ''s1'')
   = Some \<lparr>created_at = 0, updated_at = 1, title = None,
           has_active_image = False, image_filename = None,
           has_active_csv = True, csv_filename = Some (ascii ''a.csv''),
           csv_summary = Some (ascii ''A'')\<rparr>
   \<and> has_active_csv \<lparr>created_at = 0, updated_at = 1, title = None,
           has_active_image = False, image_filename = None,
           has_active_csv = True, csv_filename = Some (ascii ''a.csv''),
           csv_summary = Some (ascii ''A'')\<rparr>
       = (get_active_csv
           (run_ops empty_db
             [Create (ascii ''s1'') 0,
              SetCsv (ascii ''s1'') small_csv_data (ascii ''a.csv'') (ascii ''A'') 1 NoFault,
              SetCsv (ascii ''s1'') small_csv_data (ascii ''b.csv'') (ascii ''B'') 2 CommitFails])
           (ascii ''s1'') \<noteq> None)"
  using csv_flag_iff_context_stored [of "[Create (ascii ''s1'') 0,
         SetCsv (ascii ''s1'') small_csv_data (ascii ''a.csv'') (ascii ''A'') 1 NoFault,
         SetCsv (ascii ''s1'') small_csv_data (ascii ''b.csv'') (ascii ''B'') 2 CommitFails]" "ascii ''s1''"]
  by (simp add: run_ops_def create_conversation_def set_active_csv_def commit_def rollback_def
        empty_db_def Let_def)

text \<open>
  C9 as stated fails: a second \<open>clear_all_context\<close> writes the clock into the session's
  \<open>updated_at\<close>, so the state after it is not the state after the first call.
\<close>

theorem clear_all_twice_changes_timestamp:
  "clear_all_context (clear_all_context one_session_db (ascii ''s1'') 1 2) (ascii ''s1'') 3 4
     \<noteq> clear_all_context one_session_db (ascii ''s1'') 1 2
   \<and> map_option updated_at
         (conversations (clear_all_context one_session_db (ascii ''s1'') 1 2) (ascii ''s1''))
       = Some 2
   \<and> map_option updated_at
         (conversations
            (clear_all_context (clear_all_context one_session_db (ascii ''s1'') 1 2)
               (ascii ''s1'') 3 4) (ascii ''s1''))
       = Some 4"
proof -
  have first: "map_option updated_at
         (conversations (clear_all_context one_session_db (ascii ''s1'') 1 2) (ascii ''s1''))
       = Some 2"
    by (simp add: clear_all_context_def clear_csv_context_def clear_image_context_def
          commit_def Let_def one_session_db_def empty_db_def)
  have second: "map_option updated_at
         (conversations
            (clear_all_context (clear_all_context one_session_db (ascii ''s1'') 1 2)
               (ascii ''s1'') 3 4) (ascii ''s1''))
       = Some 4"
    by (simp add: clear_all_context_def clear_csv_context_def clear_image_context_def
          commit_def Let_def one_session_db_def empty_db_def)
  have "clear_all_context (clear_all_context one_session_db (ascii ''s1'') 1 2) (ascii ''s1'') 3 4
     \<noteq> clear_all_context one_session_db (ascii ''s1'') 1 2"
    using first second by auto
  then show ?thesis using first second by simp
qed

text \<open>
  C9, amended. After \<open>clear_all_context\<close> both \<open>get_active_image\<close> and
  \<open>get_active_csv\<close> return \<open>None\<close>. The clearing functions have no failing branch, on
  an empty slot or a missing conversation either, and a second call of
  \<open>clear_all_context\<close>, \<open>clear_image_context\<close> or \<open>clear_csv_context\<close> leaves the
  state of the first call but for the session's \<open>updated_at\<close>, which it sets to its own
  reading of the clock.
\<close>

theorem clear_all_absent_and_idempotent_up_to_timestamp:
  "get_active_image (clear_all_context d c t1 t2) c = None
   \<and> get_active_csv (clear_all_context d c t1 t2) c = None
   \<and> clear_all_context (clear_all_context d c t1 t2) c t3 t4
       = with_updated_at (clear_all_context d c t1 t2) c t4
   \<and> clear_image_context (clear_image_context d c t1) c t2
       = with_updated_at (clear_image_context d c t1) c t2
   \<and> clear_csv_context (clear_csv_context d c t1) c t2
       = with_updated_at (clear_csv_context d c t1) c t2"
  by (cases "conversations d c")
     (simp_all add: get_active_image_def get_active_csv_def clear_all_context_def
        clear_csv_context_def clear_image_context_def commit_def Let_def with_updated_at_def)

section \<open>Titles and the history sent to the model\<close>

lemma add_message_title:
  assumes "conversations d cid = Some c"
  shows "\<exists>d' m c'. add_message d cid r ct iu ci cd nid now = Inr (d', m)
           \<and> conversations d' cid = Some c'
           \<and> title c' = (if \<not> truthy (title c) \<and> r = ascii ''user''
                              \<and> \<not> startswith ct (ascii ''['')
                          then Some (take 100 ct) else title c)"
  using assms by (simp add: add_message_def commit_def Let_def)

lemma add_messages_title:
  assumes "conversations d cid = Some c" and "list_all user_content_given calls"
  shows "\<exists>d' c'. add_messages d cid calls = Inr d' \<and> conversations d' cid = Some c'
           \<and> (if truthy (title c) then title c' = title c
               else (case find qualifies calls of
                       None \<Rightarrow> title c' = title c
                     | Some call \<Rightarrow> title c' = Some (take 100 (ac_content call))))"
  using assms
proof (induction calls arbitrary: d c)
  case Nil
  then show ?case by simp
next
  case (Cons call calls)
  have given: "user_content_given call" and rest: "list_all user_content_given calls"
    using Cons.prems(2) by simp_all
  obtain d1 m c1 where step: "add_message d cid (ac_role call) (ac_content call)
        (ac_image_url call) (ac_csv_data call) (ac_chart_data call) (ac_id call) (ac_now call)
        = Inr (d1, m)"
    and c1: "conversations d1 cid = Some c1"
    and t1: "title c1 = (if \<not> truthy (title c) \<and> ac_role call = ascii ''user''
                              \<and> \<not> startswith (ac_content call) (ascii ''['')
                          then Some (take 100 (ac_content call)) else title c)"
    using add_message_title [OF Cons.prems(1)] by blast
  obtain d' c' where run: "add_messages d1 cid calls = Inr d'"
    and c': "conversations d' cid = Some c'"
    and t': "if truthy (title c1) then title c' = title c1
             else (case find qualifies calls of
                     None \<Rightarrow> title c' = title c1
                   | Some call \<Rightarrow> title c' = Some (take 100 (ac_content call)))"
    using Cons.IH [OF c1 rest] by blast
  have "if truthy (title c) then title c' = title c
        else (case find qualifies (call # calls) of
                None \<Rightarrow> title c' = title c
              | Some call \<Rightarrow> title c' = Some (take 100 (ac_content call)))"
    using t1 t' given
    by (auto simp: qualifies_def user_content_given_def truthy_def
          split: if_splits option.splits)
  then show ?case using step run c' by auto
qed

lemma find_append_Some: "find P xs = Some x \<Longrightarrow> find P (xs @ ys) = Some x"
  by (induction xs) (auto split: if_splits)

lemma find_qualifies_content:
  "list_all user_content_given calls \<Longrightarrow> find qualifies calls = Some call
     \<Longrightarrow> ac_content call \<noteq> []"
  by (induction calls) (auto simp: qualifies_def user_content_given_def split: if_splits)

text \<open>
  C8. A session is created without a title, and the content of a user message is never
  empty (the chat route requires one character at least, the upload routes pass their
  markers). Then for every sequence of \<open>add_message\<close> calls to the session no call
  fails; the title is unset as long as no user message whose content does not begin with
  an opening bracket has arrived; from the first such message on it is the first 100
  characters of that message's content, whatever calls follow.
\<close>

theorem title_is_first_qualifying_message:
  assumes "conversations d cid = Some c" and "title c = None"
    and "list_all user_content_given calls"
  shows "title_after d cid calls
           = Some (case find qualifies calls of
                     None \<Rightarrow> None
                   | Some call \<Rightarrow> Some (take 100 (ac_content call)))
       \<and> (find qualifies calls \<noteq> None \<longrightarrow>
            title_after d cid (calls @ later) = title_after d cid calls)"
proof -
  have untitled: "\<not> truthy (title c)" using assms(2) by (simp add: truthy_def)
  have run: "title_after d cid calls
           = Some (case find qualifies calls of
                     None \<Rightarrow> None
                   | Some call \<Rightarrow> Some (take 100 (ac_content call)))"
    using add_messages_title [OF assms(1,3)] untitled assms(2)
    by (auto simp: title_after_def split: option.splits)
  have "title_after d cid (calls @ later) = title_after d cid calls"
    if found: "find qualifies calls \<noteq> None"
  proof -
    obtain call where f: "find qualifies calls = Some call" using found by auto
    have set: "title_after d cid calls = Some (Some (take 100 (ac_content call)))"
      using run f by simp
    then obtain d1 c1 where d1: "add_messages d cid calls = Inr d1"
      and c1: "conversations d1 cid = Some c1"
      and t1: "title c1 = Some (take 100 (ac_content call))"
      by (auto simp: title_after_def split: sum.splits)
    have titled: "truthy (title c1)"
      using t1 find_qualifies_content [OF assms(3) f] by (simp add: truthy_def)
    have keep: "\<exists>d2 c2. add_messages d1 cid xs = Inr d2 \<and> conversations d2 cid = Some c2
                  \<and> title c2 = title c1" if "conversations d1 cid = Some c1" "truthy (title c1)"
      for xs d1 c1
      using that
    proof (induction xs arbitrary: d1 c1)
      case Nil
      then show ?case by simp
    next
      case (Cons x xs)
      obtain d2 m c2 where step: "add_message d1 cid (ac_role x) (ac_content x)
            (ac_image_url x) (ac_csv_data x) (ac_chart_data x) (ac_id x) (ac_now x)
            = Inr (d2, m)"
        and c2: "conversations d2 cid = Some c2" and t2: "title c2 = title c1"
        using add_message_title [OF Cons.prems(1)] Cons.prems(2) by fastforce
      show ?case using Cons.IH [OF c2] Cons.prems(2) t2 step by auto
    qed
    have split: "add_messages d cid (xs @ ys)
                   = (case add_messages d cid xs of Inl e \<Rightarrow> Inl e
                      | Inr d' \<Rightarrow> add_messages d' cid ys)" for xs ys d
      by (induction xs arbitrary: d) (auto split: sum.splits)
    show ?thesis
      using keep [OF c1 titled, of later] d1 c1 t1 set
      by (auto simp: title_after_def split [of d calls later])
  qed
  then show ?thesis using run by blast
qed

theorem title_is_first_qualifying_message_witness:
  "conversations one_session_db (ascii ''s1'')
     = Some \<lparr>created_at = 0, updated_at = 0, title = None,
             has_active_image = False, image_filename = None,
             has_active_csv = False, csv_filename = None, csv_summary = None\<rparr>
   \<and> list_all user_content_given
        [user_call (ascii ''[Uploaded CSV: a.csv]''), user_call (ascii ''hello'')]
   \<and> title_after one_session_db (ascii ''s1'')
        [user_call (ascii ''[Uploaded CSV: a.csv]''), user_call (ascii ''hello'')]
       = Some (Some (ascii ''hello''))
   \<and> title_after one_session_db (ascii ''s1'')
        ([user_call (ascii ''[Uploaded CSV: a.csv]''), user_call (ascii ''hello'')]
         @ [user_call (ascii ''later'')])
       = Some (Some (ascii ''hello''))"
  using title_is_first_qualifying_message
          [of one_session_db "ascii ''s1''"
              "\<lparr>created_at = 0, updated_at = 0, title = None,
                has_active_image = False, image_filename = None,
                has_active_csv = False, csv_filename = None, csv_summary = None\<rparr>"
              "[user_call (ascii ''[Uploaded CSV: a.csv]''), user_call (ascii ''hello'')]"
              "[user_call (ascii ''later'')]"]
  by (simp add: one_session_db_def empty_db_def qualifies_def user_content_given_def
        user_call_def startswith_def ascii_def)

lemma history_messages_filter:
  "history_messages h
     = map (\<lambda>(r, c). \<lparr>cm_role = r, cm_content = Plain c\<rparr>)
           (filter (\<lambda>(r, c). \<not> is_upload_marker c) (drop (length h - 15) h))"
proof -
  have "concat (map (\<lambda>(r, c). if is_upload_marker c then []
                              else [\<lparr>cm_role = r, cm_content = Plain c\<rparr>]) xs)
        = map (\<lambda>(r, c). \<lparr>cm_role = r, cm_content = Plain c\<rparr>)
              (filter (\<lambda>(r, c). \<not> is_upload_marker c) xs)" for xs
    by (induction xs) auto
  then show ?thesis by (simp add: history_messages_def is_upload_marker_def)
qed

text \<open>
  C1, amended. \<open>add_message\<close> with a content that begins with an opening bracket changes
  no title. The payload is the system prompt, then the entries among the last 15 of the
  history whose content begins neither with \<open>[Uploaded\<close> nor with \<open>[Loaded\<close>, in
  order, then the current turn: the filter drops the entries with these two prefixes and
  no other.
\<close>

theorem bracket_keeps_title_and_upload_markers_dropped:
  assumes "startswith content' (ascii ''['')"
  shows "(add_message d cid r content' iu ci cd nid now = Inr (d', m) \<longrightarrow>
            (\<forall>k. map_option title (conversations d' k) = map_option title (conversations d k)))
       \<and> build_messages system_prompt message' h image_b64
           = \<lparr>cm_role = ascii ''system'', cm_content = Plain system_prompt\<rparr>
             # map (\<lambda>(r, c). \<lparr>cm_role = r, cm_content = Plain c\<rparr>)
                   (filter (\<lambda>(r, c). \<not> is_upload_marker c) (drop (length h - 15) h))
             @ [current_message message' image_b64]"
proof -
  have "\<forall>k. map_option title (conversations d' k) = map_option title (conversations d k)"
    if "add_message d cid r content' iu ci cd nid now = Inr (d', m)"
    using that assms
    by (cases "conversations d cid") (auto simp: add_message_def commit_def Let_def)
  then show ?thesis by (simp add: build_messages_def history_messages_filter)
qed

text \<open>
  C1 as stated fails: a stored message that begins with a bracket, but with neither of the
  two prefixes, is sent to the model.
\<close>

theorem bracket_message_reaches_model:
  "startswith (ascii ''[note] buy milk'') (ascii ''['')
   \<and> history_messages [(ascii ''user'', ascii ''[note] buy milk'')]
       = [\<lparr>cm_role = ascii ''user'', cm_content = Plain (ascii ''[note] buy milk'')\<rparr>]"
  by (simp add: history_messages_def startswith_def ascii_def)

theorem bracket_keeps_title_witness:
  "startswith (ascii ''[Uploaded CSV: a.csv]'') (ascii ''['')
   \<and> title_after one_session_db (ascii ''s1'') [user_call (ascii ''[Uploaded CSV: a.csv]'')]
       = Some None
   \<and> build_messages (ascii ''sys'') (ascii ''hi'')
        [(ascii ''user'', ascii ''[Uploaded CSV: a.csv]''),
         (ascii ''assistant'', ascii ''loaded''),
         (ascii ''user'', ascii ''[note] buy milk'')] None
       = [\<lparr>cm_role = ascii ''system'', cm_content = Plain (ascii ''sys'')\<rparr>,
          \<lparr>cm_role = ascii ''assistant'', cm_content = Plain (ascii ''loaded'')\<rparr>,
          \<lparr>cm_role = ascii ''user'', cm_content = Plain (ascii ''[note] buy milk'')\<rparr>,
          \<lparr>cm_role = ascii ''user'', cm_content = Plain (ascii ''hi'')\<rparr>]"
  using bracket_keeps_title_and_upload_markers_dropped
          [of "ascii ''[Uploaded CSV: a.csv]''" one_session_db "ascii ''s1''" "ascii ''user''"
              None None None "[]" 1 _ _ "ascii ''sys''" "ascii ''hi''"
              "[(ascii ''user'', ascii ''[Uploaded CSV: a.csv]''),
                (ascii ''assistant'', ascii ''loaded''),
                (ascii ''user'', ascii ''[note] buy milk'')]" None]
  by (simp add: title_after_def add_message_def commit_def Let_def one_session_db_def
        empty_db_def truthy_def user_call_def startswith_def ascii_def is_upload_marker_def
        current_message_def)

section \<open>Sessions of the routes\<close>

lemma resolve_fresh:
  assumes "conversations d sid = None" and "conversations d new_id = None"
  shows "get_or_create_session d (Some sid) new_id t0
           = Inr (d\<lparr>conversations := (conversations d)(new_id \<mapsto>
                  \<lparr>created_at = t0, updated_at = t0, title = None,
                   has_active_image = False, image_filename = None,
                   has_active_csv = False, csv_filename = None, csv_summary = None\<rparr>)\<rparr>,
                  new_id)"
  using assms
  by (simp add: get_or_create_session_def get_conversation_def create_conversation_def commit_def)

lemma announced_chunks: "announced_ids (map ChunkEvent xs) = []"
  by (induction xs) (simp_all add: announced_ids_def)

lemma images_owned_apply:
  assumes "\<forall>k. conversations d k = None \<longrightarrow> image_contexts d k = None"
  shows "\<forall>k. conversations (apply_op d op) k = None \<longrightarrow> image_contexts (apply_op d op) k = None"
proof (cases op)
  case (Create c now)
  then show ?thesis using assms
    by (auto simp: create_conversation_def commit_def split: if_splits)
next
  case (Append c r ct iu ci cd nid now)
  then show ?thesis using assms
    by (cases "conversations d c") (auto simp: add_message_def commit_def Let_def)
next
  case (SetImage c img f now fault)
  then show ?thesis using assms
    by (cases "conversations d c") (auto simp: set_active_image_def commit_def Let_def)
next
  case (ClearImage c now)
  then show ?thesis using assms
    by (cases "conversations d c") (auto simp: clear_image_context_def commit_def Let_def)
next
  case (SetCsv c cd f s now fault)
  then show ?thesis using assms
    by (cases "conversations d c")
       (auto simp: set_active_csv_def commit_def rollback_def Let_def)
next
  case (ClearCsv c now)
  then show ?thesis using assms
    by (cases "conversations d c") (auto simp: clear_csv_context_def commit_def Let_def)
next
  case (ClearAll c now1 now2)
  then show ?thesis using assms
    by (cases "conversations d c")
       (auto simp: clear_all_context_def clear_csv_context_def clear_image_context_def
          commit_def Let_def)
next
  case (Delete c)
  then show ?thesis using assms
    by (cases "conversations d c") (auto simp: delete_conversation_def commit_def)
qed

lemma images_owned_run:
  "\<forall>k. conversations d k = None \<longrightarrow> image_contexts d k = None \<Longrightarrow>
   \<forall>k. conversations (run_ops d ops) k = None \<longrightarrow> image_contexts (run_ops d ops) k = None"
  unfolding run_ops_def
proof (induction ops arbitrary: d)
  case Nil
  then show ?case by simp
next
  case (Cons op ops)
  show ?case using Cons.IH [OF images_owned_apply [OF Cons.prems]] by simp
qed

lemma fresh_id_has_no_image:
  "conversations (run_ops empty_db ops) k = None \<Longrightarrow> image_contexts (run_ops empty_db ops) k = None"
  using images_owned_run [of empty_db ops] by (simp add: empty_db_def)

text \<open>
  C10. A request names a session \<open>sid\<close> that the store does not hold, and the drawn
  identifier \<open>new_id\<close> is fresh. Then the chat stream, the CSV upload and the image
  upload (each from its session block on) never fail with the not-found error. The chat
  stream, and each upload when the database does not fail, creates the conversation
  \<open>new_id\<close>; \<open>sid\<close>, when it is another identifier, is still not stored afterwards;
  the two messages added are written to \<open>new_id\<close>, as is the active context; and the
  identifier announced by the stream's session and done events, or returned in the
  response, is \<open>new_id\<close>. For the image upload, fresh also says that no image row is
  stored under \<open>new_id\<close>, as is the case in every state the repository calls reach
  from the empty database (\<open>fresh_id_has_no_image\<close>).
\<close>

theorem unknown_session_gets_fresh_one:
  assumes "rq_session_id request = Some sid" and "conversations d sid = None"
    and "conversations d new_id = None"
  shows "(\<exists>events d'. send_message_stream provider build_system_prompt d request
                           new_id t0 uid t1 aid t2 = Inr (events, d')
              \<and> announced_ids events = [new_id, new_id]
              \<and> hd events = SessionEvent new_id \<and> last events = DoneEvent new_id
              \<and> conversations d' new_id \<noteq> None
              \<and> (sid \<noteq> new_id \<longrightarrow> conversations d' sid = None)
              \<and> take (length (messages d)) (messages d') = messages d
              \<and> written_ids d d' = [new_id, new_id])
       \<and> ((\<forall>x. upload_csv d (Some sid) filename csv_data summary' new_id t0 t1 fault
                    uid t2 aid t3 \<noteq> Inl (NotFound x))
          \<and> (fault = NoFault \<longrightarrow>
               (\<exists>response d'. upload_csv d (Some sid) filename csv_data summary' new_id t0 t1 fault
                                  uid t2 aid t3 = Inr (response, d')
                  \<and> ur_session_id response = new_id
                  \<and> conversations d' new_id \<noteq> None
                  \<and> (sid \<noteq> new_id \<longrightarrow> conversations d' sid = None)
                  \<and> csv_contexts d' new_id \<noteq> None
                  \<and> (sid \<noteq> new_id \<longrightarrow> csv_contexts d' sid = csv_contexts d sid)
                  \<and> take (length (messages d)) (messages d') = messages d
                  \<and> written_ids d d' = [new_id, new_id])))
       \<and> ((\<forall>x. upload_image d (Some sid) base64_image image_data_url filename analysis
                    new_id t0 t1 fault uid t2 aid t3 \<noteq> Inl (NotFound x))
          \<and> (fault = NoFault \<and> image_contexts d new_id = None \<longrightarrow>
               (\<exists>response d'. upload_image d (Some sid) base64_image image_data_url filename
                                  analysis new_id t0 t1 fault uid t2 aid t3 = Inr (response, d')
                  \<and> ir_session_id response = new_id
                  \<and> conversations d' new_id \<noteq> None
                  \<and> (sid \<noteq> new_id \<longrightarrow> conversations d' sid = None)
                  \<and> get_active_image d' new_id = Some base64_image
                  \<and> (sid \<noteq> new_id \<longrightarrow> image_contexts d' sid = image_contexts d sid)
                  \<and> take (length (messages d)) (messages d') = messages d
                  \<and> written_ids d d' = [new_id, new_id])))"
    (is "?chat \<and> ?csv \<and> ?image")
proof -
  have g: "raised (generate_response_stream p s m h i) = None" for p s m h i
    by (auto simp: generate_response_stream_def Let_def split: prod.splits option.splits)
  have chat: ?chat
    using assms
    by (simp add: send_message_stream_def resolve_fresh add_message_def commit_def Let_def g
          announced_ids_def written_ids_def announced_chunks [unfolded announced_ids_def])
  have csv: ?csv
    using assms(2,3)
    by (cases fault)
       (simp_all add: upload_csv_def resolve_fresh set_active_csv_def add_message_def
          commit_def rollback_def Let_def written_ids_def)
  have image: ?image
    using assms(2,3)
    by (cases fault)
       (simp_all add: upload_image_def resolve_fresh set_active_image_def add_message_def
          commit_def Let_def written_ids_def get_active_image_def)
  show ?thesis by (rule conjI [OF chat conjI [OF csv image]])
qed

theorem unknown_session_gets_fresh_one_witness:
  "rq_session_id ghost_request = Some (ascii ''ghost'')
   \<and> conversations one_session_db (ascii ''ghost'') = None
   \<and> conversations one_session_db (ascii ''n1'') = None
   \<and> image_contexts one_session_db (ascii ''n1'') = None
   \<and> (\<exists>events d'. send_message_stream failing_provider (\<lambda>csv s. ascii ''sys'')
                       one_session_db ghost_request (ascii ''n1'') 1 (ascii ''u'') 2
                       (ascii ''a'') 3 = Inr (events, d')
          \<and> announced_ids events = [ascii ''n1'', ascii ''n1'']
          \<and> conversations d' (ascii ''ghost'') = None
          \<and> written_ids one_session_db d' = [ascii ''n1'', ascii ''n1''])
   \<and> (\<exists>response d'. upload_csv one_session_db (Some (ascii ''ghost'')) (ascii ''a.csv'')
                         small_csv_data (snd (summarize no_text_summary small_frame
                                                 (ascii ''a.csv'')))
                         (ascii ''n1'') 1 2 NoFault (ascii ''u'') 3 (ascii ''a'') 4
                       = Inr (response, d')
          \<and> ur_session_id response = ascii ''n1''
          \<and> conversations d' (ascii ''ghost'') = None
          \<and> written_ids one_session_db d' = [ascii ''n1'', ascii ''n1''])
   \<and> (\<exists>response d'. upload_image one_session_db (Some (ascii ''ghost'')) (ascii ''QUJD'')
                         (ascii ''data:image/png;base64,QUJD'') (ascii ''a.png'')
                         (ascii ''three letters'')
                         (ascii ''n1'') 1 2 NoFault (ascii ''u'') 3 (ascii ''a'') 4
                       = Inr (response, d')
          \<and> ir_session_id response = ascii ''n1''
          \<and> conversations d' (ascii ''ghost'') = None
          \<and> written_ids one_session_db d' = [ascii ''n1'', ascii ''n1''])"
proof -
  have h1: "rq_session_id ghost_request = Some (ascii ''ghost'')"
    by (simp add: ghost_request_def)
  have h2: "conversations one_session_db (ascii ''ghost'') = None"
    by (simp add: one_session_db_def empty_db_def ascii_def)
  have h3: "conversations one_session_db (ascii ''n1'') = None"
    by (simp add: one_session_db_def empty_db_def ascii_def)
  have h4: "image_contexts one_session_db (ascii ''n1'') = None"
    by (simp add: one_session_db_def empty_db_def)
  have ne: "ascii ''ghost'' \<noteq> ascii ''n1''"
    by (simp add: ascii_def)
  note inst = unknown_session_gets_fresh_one [OF h1 h2 h3]
  have a: "\<exists>events d'. send_message_stream failing_provider (\<lambda>csv s. ascii ''sys'')
                       one_session_db ghost_request (ascii ''n1'') 1 (ascii ''u'') 2
                       (ascii ''a'') 3 = Inr (events, d')
          \<and> announced_ids events = [ascii ''n1'', ascii ''n1'']
          \<and> conversations d' (ascii ''ghost'') = None
          \<and> written_ids one_session_db d' = [ascii ''n1'', ascii ''n1'']"
    using inst [THEN conjunct1, of failing_provider "\<lambda>csv s. ascii ''sys''" 1 "ascii ''u''" 2
                 "ascii ''a''" 3] ne
    by blast
  have b: "\<exists>response d'. upload_csv one_session_db (Some (ascii ''ghost'')) (ascii ''a.csv'')
                         small_csv_data (snd (summarize no_text_summary small_frame
                                                 (ascii ''a.csv'')))
                         (ascii ''n1'') 1 2 NoFault (ascii ''u'') 3 (ascii ''a'') 4
                       = Inr (response, d')
          \<and> ur_session_id response = ascii ''n1''
          \<and> conversations d' (ascii ''ghost'') = None
          \<and> written_ids one_session_db d' = [ascii ''n1'', ascii ''n1'']"
    using inst [THEN conjunct2, THEN conjunct1, THEN conjunct2,
               of NoFault "ascii ''a.csv''" small_csv_data
                  "snd (summarize no_text_summary small_frame (ascii ''a.csv''))"
                  1 2 "ascii ''u''" 3 "ascii ''a''" 4] ne
    by blast
  have c: "\<exists>response d'. upload_image one_session_db (Some (ascii ''ghost'')) (ascii ''QUJD'')
                         (ascii ''data:image/png;base64,QUJD'') (ascii ''a.png'')
                         (ascii ''three letters'')
                         (ascii ''n1'') 1 2 NoFault (ascii ''u'') 3 (ascii ''a'') 4
                       = Inr (response, d')
          \<and> ir_session_id response = ascii ''n1''
          \<and> conversations d' (ascii ''ghost'') = None
          \<and> written_ids one_session_db d' = [ascii ''n1'', ascii ''n1'']"
    using inst [THEN conjunct2, THEN conjunct2, THEN conjunct2,
               of NoFault "ascii ''QUJD''" "ascii ''data:image/png;base64,QUJD''"
                  "ascii ''a.png''" "ascii ''three letters''" 1 2 "ascii ''u''" 3
                  "ascii ''a''" 4] ne h4
    by blast
  show ?thesis using h1 h2 h3 h4 a b c by blast
qed

section \<open>The tabular summarizer\<close>

lemma head_head: "head 100 (head 1000 df) = head 100 df"
  by (simp add: head_def comp_def)

lemma sample_rows_eq:
  "cd_sample_rows (fst (summarize gen df filename))
     = clean_rows (to_dict_records (fillna_empty (head 100 df)))"
  by (simp add: summarize_def Let_def MAX_ROWS_DISPLAY_def MAX_ROWS_CONTEXT_def head_head
        split: prod.splits)

lemma getitem_head: "getitem (head n df) col = take n (getitem df col)"
proof -
  have "find (\<lambda>c. cname c = col) (map (\<lambda>c. c\<lparr>cells := take n (cells c)\<rparr>) cs)
          = map_option (\<lambda>c. c\<lparr>cells := take n (cells c)\<rparr>) (find (\<lambda>c. cname c = col) cs)"
    for cs :: "column list"
    by (induction cs) auto
  then show ?thesis
    by (cases "find (\<lambda>c. cname c = col) (fcols df)") (simp_all add: getitem_def head_def)
qed

lemma select_dtypes_head: "select_dtypes include (head n df) = select_dtypes include df"
proof -
  have "map cname (filter (\<lambda>c. ctype c \<in> set include)
                     (map (\<lambda>c. c\<lparr>cells := take n (cells c)\<rparr>) cs))
          = map cname (filter (\<lambda>c. ctype c \<in> set include) cs)" for cs :: "column list"
    by (induction cs) auto
  then show ?thesis by (simp add: select_dtypes_def head_def)
qed

lemma summarize_truncated:
  assumes "nrows df > 1000"
  shows "cd_row_count (fst (summarize gen df filename)) = nrows df"
    and "sm_row_count (snd (summarize gen df filename)) = nrows df"
    and "cd_truncated (fst (summarize gen df filename))"
    and "cd_displayed_rows (fst (summarize gen df filename)) = 1000"
    and "cd_numeric_stats (fst (summarize gen df filename))
           = concat (map (\<lambda>col. case column_stats (take 1000 (getitem df col)) of
                                  Some s \<Rightarrow> [(col, s)] | None \<Rightarrow> [])
                         (select_dtypes [Int64, Float64] df))"
    and "cd_missing_values (fst (summarize gen df filename))
           = map (\<lambda>c. (cname c, isnull_sum (take 1000 (cells c)))) (fcols df)"
    and "cd_sample_rows (fst (summarize gen df filename))
           = clean_rows (to_dict_records (fillna_empty
               \<lparr>nrows = 100, fcols = map (\<lambda>c. c\<lparr>cells := take 100 (cells c)\<rparr>) (fcols df)\<rparr>))"
    and "length (cd_sample_rows (fst (summarize gen df filename))) = 100"
proof -
  have h: "head 100 df
             = \<lparr>nrows = 100, fcols = map (\<lambda>c. c\<lparr>cells := take 100 (cells c)\<rparr>) (fcols df)\<rparr>"
    using assms by (simp add: head_def)
  show "cd_row_count (fst (summarize gen df filename)) = nrows df"
    and "sm_row_count (snd (summarize gen df filename)) = nrows df"
    and "cd_truncated (fst (summarize gen df filename))"
    and "cd_displayed_rows (fst (summarize gen df filename)) = 1000"
    using assms
    by (simp_all add: summarize_def Let_def MAX_ROWS_CONTEXT_def head_def split: prod.splits)
  show "cd_numeric_stats (fst (summarize gen df filename))
           = concat (map (\<lambda>col. case column_stats (take 1000 (getitem df col)) of
                                  Some s \<Rightarrow> [(col, s)] | None \<Rightarrow> [])
                         (select_dtypes [Int64, Float64] df))"
    using assms
    by (simp add: summarize_def Let_def MAX_ROWS_CONTEXT_def numeric_stats_of_def
          getitem_head select_dtypes_head split: prod.splits)
  show "cd_missing_values (fst (summarize gen df filename))
           = map (\<lambda>c. (cname c, isnull_sum (take 1000 (cells c)))) (fcols df)"
    using assms
    by (simp add: summarize_def Let_def MAX_ROWS_CONTEXT_def missing_values_of_def head_def
          comp_def split: prod.splits)
  show rows: "cd_sample_rows (fst (summarize gen df filename))
           = clean_rows (to_dict_records (fillna_empty
               \<lparr>nrows = 100, fcols = map (\<lambda>c. c\<lparr>cells := take 100 (cells c)\<rparr>) (fcols df)\<rparr>))"
    by (simp add: sample_rows_eq h)
  show "length (cd_sample_rows (fst (summarize gen df filename))) = 100"
    by (simp add: rows clean_rows_def to_dict_records_def fillna_empty_def)
qed

text \<open>
  C7. When the frame read from the input (by the default reader, or by the lenient one
  after a \<open>ParserError\<close>) has more than 1000 rows, \<open>parse_csv\<close> succeeds and the
  \<open>row_count\<close> of both results is the number of rows of the whole frame. The
  statistics of a numeric column are those of its first 1000 cells, the missing-value
  count of a column is the number of nulls among its first 1000 cells, and the 100 sample
  rows are made of the first 100 cells of the columns: no cell of a later row enters
  them.
\<close>

theorem row_count_is_untruncated_total:
  assumes "read_csv content' = Inr df
           \<or> (\<exists>e. read_csv content' = Inl (ParserError e) \<and> read_csv_lenient content' = Inr df)"
    and "nrows df > 1000"
  shows "\<exists>cd sm. parse_csv gen read_csv read_csv_lenient content' filename = Inr (cd, sm)
           \<and> cd_row_count cd = nrows df \<and> sm_row_count sm = nrows df
           \<and> cd_truncated cd \<and> cd_displayed_rows cd = 1000
           \<and> cd_numeric_stats cd
               = concat (map (\<lambda>col. case column_stats (take 1000 (getitem df col)) of
                                      Some s \<Rightarrow> [(col, s)] | None \<Rightarrow> [])
                             (select_dtypes [Int64, Float64] df))
           \<and> sm_numeric_stats sm = cd_numeric_stats cd
           \<and> cd_missing_values cd
               = map (\<lambda>c. (cname c, isnull_sum (take 1000 (cells c)))) (fcols df)
           \<and> sm_missing_values sm = cd_missing_values cd
           \<and> cd_sample_rows cd
               = clean_rows (to_dict_records (fillna_empty
                   \<lparr>nrows = 100,
                    fcols = map (\<lambda>c. c\<lparr>cells := take 100 (cells c)\<rparr>) (fcols df)\<rparr>))
           \<and> length (cd_sample_rows cd) = 100
           \<and> sm_sample_rows sm = take 5 (cd_sample_rows cd)"
proof -
  have p: "parse_csv gen read_csv read_csv_lenient content' filename
             = Inr (summarize gen df filename)"
    using assms(1) by (auto simp: parse_csv_def)
  have s: "sm_numeric_stats (snd (summarize gen df filename))
             = cd_numeric_stats (fst (summarize gen df filename))"
     "sm_missing_values (snd (summarize gen df filename))
             = cd_missing_values (fst (summarize gen df filename))"
     "sm_sample_rows (snd (summarize gen df filename))
             = take 5 (cd_sample_rows (fst (summarize gen df filename)))"
    by (simp_all add: summarize_def Let_def split: prod.splits)
  note t = summarize_truncated [OF assms(2), of gen filename]
  show ?thesis
    apply (rule exI [of _ "fst (summarize gen df filename)"])
    apply (rule exI [of _ "snd (summarize gen df filename)"])
    apply (intro conjI)
    apply (simp add: p)
    apply (rule t(1))
    apply (rule t(2))
    apply (rule t(3))
    apply (rule t(4))
    apply (rule t(5))
    apply (rule s(1))
    apply (rule t(6))
    apply (rule s(2))
    apply (rule t(7))
    apply (rule t(8))
    apply (rule s(3))
    done
qed

lemma dropna_replicate: "dropna (replicate n (Num x)) = replicate n x"
  by (induction n) (simp_all add: dropna_def)

theorem row_count_is_untruncated_total_witness:
  "((\<lambda>c. Inr big_frame) scenario_text = (Inr big_frame :: read_error + frame)
     \<or> (\<exists>e. (\<lambda>c. Inr big_frame) scenario_text = (Inl (ParserError e) :: read_error + frame)
            \<and> (\<lambda>c. Inr big_frame) scenario_text = (Inr big_frame :: read_error + frame)))
   \<and> nrows big_frame > 1000
   \<and> isnull_sum (getitem big_frame (ascii ''n'')) = 1
   \<and> (\<exists>cd sm. parse_csv no_text_summary (\<lambda>c. Inr big_frame) (\<lambda>c. Inr big_frame)
                   scenario_text (ascii ''big.csv'') = Inr (cd, sm)
          \<and> cd_row_count cd = 1001 \<and> sm_row_count sm = 1001
          \<and> cd_truncated cd \<and> cd_displayed_rows cd = 1000
          \<and> map (\<lambda>(col, s). (col, st_count s, st_missing s)) (cd_numeric_stats cd)
              = [(ascii ''n'', 1000, 0)]
          \<and> cd_missing_values cd = [(ascii ''n'', 0)]
          \<and> length (cd_sample_rows cd) = 100)"
proof -
  have n: "nrows big_frame = 1001" by (simp add: big_frame_def)
  have h2: "nrows big_frame > 1000" using n by simp
  have cols: "select_dtypes [Int64, Float64] big_frame = [ascii ''n'']"
    by (simp add: select_dtypes_def big_frame_def)
  have col: "getitem big_frame (ascii ''n'') = replicate 1000 (Num 1) @ [Null]"
    by (simp add: getitem_def big_frame_def)
  have first: "take 1000 (replicate 1000 (Num 1) @ [Null]) = replicate 1000 (Num 1)"
    by simp
  have full: "isnull_sum (getitem big_frame (ascii ''n'')) = 1"
    by (simp add: col isnull_sum_def)
  have stats: "map (\<lambda>(col, s). (col, st_count s, st_missing s))
                 (concat (map (\<lambda>col. case column_stats (take 1000 (getitem big_frame col)) of
                                        Some s \<Rightarrow> [(col, s)] | None \<Rightarrow> [])
                               (select_dtypes [Int64, Float64] big_frame)))
               = [(ascii ''n'', 1000, 0)]"
    by (simp add: cols col first column_stats_def dropna_replicate isnull_sum_def Let_def)
  have missing: "map (\<lambda>c. (cname c, isnull_sum (take 1000 (cells c)))) (fcols big_frame)
                   = [(ascii ''n'', 0)]"
    by (simp add: big_frame_def isnull_sum_def)
  show ?thesis
    using row_count_is_untruncated_total
            [where read_csv = "\<lambda>c. Inr big_frame" and read_csv_lenient = "\<lambda>c. Inr big_frame"
               and content' = scenario_text and df = big_frame and gen = no_text_summary
               and filename = "ascii ''big.csv''"]
          h2 n full stats missing
    by auto
qed

text \<open>
  C2, amended. For a frame with one cell per row in every column, there are as many
  sample rows as the frame has rows, up to 100, each with one entry per column, keyed by
  the column's name; the entry of a missing cell is the empty string, that of any other
  cell is the cell's value; no entry is NaN, and none is \<open>None\<close>.
\<close>

theorem sample_rows_render_nulls_as_empty_strings:
  assumes "wf_frame df" and "i < min 100 (nrows df)" and "j < length (fcols df)"
  shows "length (cd_sample_rows (fst (summarize gen df filename))) = min 100 (nrows df)
       \<and> length (cd_sample_rows (fst (summarize gen df filename)) ! i) = length (fcols df)
       \<and> cd_sample_rows (fst (summarize gen df filename)) ! i ! j
           = (cname (fcols df ! j),
              if cells (fcols df ! j) ! i = Null then PyStr []
              else to_py (cells (fcols df ! j) ! i))
       \<and> snd (cd_sample_rows (fst (summarize gen df filename)) ! i ! j) \<noteq> PyNaN
       \<and> snd (cd_sample_rows (fst (summarize gen df filename)) ! i ! j) \<noteq> PyNone"
proof -
  let ?c = "fcols df ! j"
  have len: "length (cells ?c) = nrows df"
    using assms(1,3) by (simp add: wf_frame_def list_all_length)
  have i: "i < length (take 100 (cells ?c))" using assms(2) len by simp
  have mem: "cells ?c ! i \<in> set (take 100 (cells ?c))"
    using nth_mem [OF i] i by simp
  have rows: "cd_sample_rows (fst (summarize gen df filename)) ! i ! j
           = (cname ?c, if cells ?c ! i = Null then PyStr []
                         else to_py (cells ?c ! i))"
    using assms(2,3) mem i
    by (auto simp: sample_rows_eq clean_rows_def to_dict_records_def fillna_empty_def head_def
          clean_value_def pd_isna_def to_py_def split: cell.splits)
  have "(if cells ?c ! i = Null then PyStr [] else to_py (cells ?c ! i)) \<noteq> PyNaN"
       "(if cells ?c ! i = Null then PyStr [] else to_py (cells ?c ! i)) \<noteq> PyNone"
    by (cases "cells ?c ! i"; simp add: to_py_def)+
  then show ?thesis
    using rows assms(2,3)
    by (simp add: sample_rows_eq clean_rows_def to_dict_records_def fillna_empty_def head_def)
qed


lemma small_rows:
  "cd_sample_rows small_csv_data
     = [[(ascii ''n'', PyNum 4), (ascii ''b'', PyStr (ascii ''x''))],
        [(ascii ''n'', PyStr []), (ascii ''b'', PyStr [])]]"
  by (simp add: small_csv_data_def sample_rows_eq small_frame_def head_def fillna_empty_def
        to_dict_records_def clean_rows_def clean_value_def pd_isna_def to_py_def
        upt_conv_Cons)

text \<open>
  C2 as stated fails: \<open>fillna("")\<close> runs before the cleaning loop, so a missing cell
  reaches the sample rows as the empty string, not as \<open>None\<close>.
\<close>

theorem null_cell_becomes_empty_string:
  "cells (fcols small_frame ! 1) ! 1 = Null
   \<and> cd_sample_rows (fst (summarize no_text_summary small_frame (ascii ''data.csv''))) ! 1 ! 1
       = (ascii ''b'', PyStr [])"
  using small_rows by (simp add: small_csv_data_def small_frame_def)

theorem sample_rows_render_nulls_witness:
  "wf_frame small_frame \<and> (1::nat) < min 100 (nrows small_frame)
   \<and> (0::nat) < length (fcols small_frame)
   \<and> length (cd_sample_rows (fst (summarize no_text_summary small_frame (ascii ''data.csv''))))
       = 2
   \<and> cd_sample_rows (fst (summarize no_text_summary small_frame (ascii ''data.csv''))) ! 1 ! 0
       = (ascii ''n'', PyStr [])"
  using sample_rows_render_nulls_as_empty_strings [of small_frame 1 0 no_text_summary "ascii ''data.csv''"]
  by (simp add: wf_frame_def small_frame_def)

lemma scenario_unfolded:
  "scenario_text = [97, 44, 98, 10, 49, 44, 120, 10, 50, 44, 10, 51, 44, 122]"
  by (simp add: scenario_text_def ascii_def)

lemma scenario_frame:
  "read_plain scenario_text
     = Some \<lparr>nrows = 3,
             fcols = [\<lparr>cname = ascii ''a'', ctype = Int64, cells = [Num 1, Num 2, Num 3]\<rparr>,
                      \<lparr>cname = ascii ''b'', ctype = Object,
                       cells = [Str (ascii ''x''), Null, Str (ascii ''z'')]\<rparr>]\<rparr>"
  unfolding scenario_unfolded
  by (simp add: read_plain_def ascii_def is_word_def is_letter_def reserved_words_def
        lower_ascii_def plain_field_def is_number_def is_digit_def read_column_def
        digits_value_def upt_conv_Cons)

lemma floor_log2:
  assumes "2 powr of_int k \<le> x" and "x < 2 powr (of_int k + 1)"
  shows "\<lfloor>log 2 x\<rfloor> = k"
proof -
  have "0 < 2 powr (of_int k :: real)" by simp
  then have pos: "0 < x" using assms(1) by linarith
  have "of_int k \<le> log 2 x" using assms(1) pos by (simp add: le_log_iff)
  moreover have "log 2 x < of_int k + 1" using assms(2) pos by (simp add: log_less_iff)
  ultimately show ?thesis by linarith
qed

lemma to_double_small: "to_double 1 = 1" "to_double 2 = 2" "to_double 3 = 3"
proof -
  show "to_double 1 = 1" "to_double 2 = 2"
    by (simp_all add: to_double_def Let_def powr_minus powr_numeral round_half_even_def)
  have "\<lfloor>log 2 \<bar>3::real\<bar>\<rfloor> = 1"
    by (rule floor_log2) (simp_all add: powr_numeral)
  then show "to_double 3 = 3"
    by (simp add: to_double_def Let_def powr_minus powr_numeral round_half_even_def)
qed

lemma round2_small: "round2 1 = 1" "round2 2 = 2" "round2 3 = 3"
  by (simp_all add: round2_def to_double_small round_half_even_def)

lemma to_double_fortieth: "to_double (1 / 40) = 7205759403792794 / 2 ^ 58"
proof -
  have "\<lfloor>log 2 \<bar>1 / 40::real\<bar>\<rfloor> = - 6"
    by (rule floor_log2) (simp_all add: powr_minus powr_numeral)
  then show ?thesis
    by (simp add: to_double_def Let_def powr_minus powr_numeral round_half_even_def)
qed

text \<open>
  The float nearest to 0.025 lies above it, so a mean of one fortieth is rounded to the
  float of 0.03, not to 0.02.
\<close>

lemma round2_fortieth: "round2 (1 / 40) = to_double (3 / 100)"
  by (simp add: round2_def to_double_fortieth round_half_even_def)

lemma scenario_column_a:
  "column_stats [Num 1, Num 2, Num 3]
     = Some \<lparr>st_mean = 2, st_median = 2, st_min = 1, st_max = 3, st_std = 1,
             st_count = 3, st_missing = 0\<rparr>"
  by (simp add: column_stats_def dropna_def mean_def median_def series_min_def series_max_def
        std_def round2_small isnull_sum_def Let_def power2_eq_square)

text \<open>
  C3. The scenario's text, read as plain comma-separated text, whatever the file name:
  \<open>parse_csv\<close> succeeds with three rows; the statistics of the numeric column \<open>a\<close> are
  mean 2, median 2, minimum 1, maximum 3, standard deviation 1, count 3, missing 0; the
  column \<open>b\<close> has one missing value, and it is the column with most missing values,
  with count 1.
\<close>

theorem scenario_statistics:
  "\<exists>cd sm. parse_csv gen plain_reader read_csv_lenient scenario_text filename = Inr (cd, sm)
     \<and> cd_row_count cd = 3 \<and> cd_columns cd = [ascii ''a'', ascii ''b'']
     \<and> cd_numeric_columns cd = [ascii ''a'']
     \<and> sm_numeric_stats sm
         = [(ascii ''a'', \<lparr>st_mean = 2, st_median = 2, st_min = 1, st_max = 3, st_std = 1,
                              st_count = 3, st_missing = 0\<rparr>)]
     \<and> cd_numeric_stats cd = sm_numeric_stats sm
     \<and> sm_missing_values sm = [(ascii ''a'', 0), (ascii ''b'', 1)]
     \<and> sm_most_missing_column sm = Some (ascii ''b'')
     \<and> sm_most_missing_count sm = 1"
proof -
  let ?df = "\<lparr>nrows = 3,
             fcols = [\<lparr>cname = ascii ''a'', ctype = Int64, cells = [Num 1, Num 2, Num 3]\<rparr>,
                      \<lparr>cname = ascii ''b'', ctype = Object,
                       cells = [Str (ascii ''x''), Null, Str (ascii ''z'')]\<rparr>]\<rparr>"
  have p: "parse_csv gen plain_reader read_csv_lenient scenario_text filename
             = Inr (summarize gen ?df filename)"
    by (simp add: parse_csv_def plain_reader_def scenario_frame)
  have ne: "ascii ''a'' \<noteq> ascii ''b''" by (simp add: ascii_def)
  have stats: "numeric_stats_of ?df [ascii ''a'']
         = [(ascii ''a'', \<lparr>st_mean = 2, st_median = 2, st_min = 1, st_max = 3, st_std = 1,
                              st_count = 3, st_missing = 0\<rparr>)]"
    by (simp add: numeric_stats_of_def getitem_def scenario_column_a)
  show ?thesis
    apply (rule exI [of _ "fst (summarize gen ?df filename)"])
    apply (rule exI [of _ "snd (summarize gen ?df filename)"])
    apply (simp add: p summarize_def Let_def MAX_ROWS_CONTEXT_def select_dtypes_def stats
             missing_values_of_def isnull_sum_def split: prod.splits)
    done
qed

end
